theory Spec2Isabelle
  imports Main "HOL-Library.Sublist"
begin

section \<open>Exceptions, the outside world and what a run leaves behind\<close>

text \<open>
  Both scripts are glue around third-party collaborators: the search provider
  (\<^verbatim>\<open>DDGS().text\<close> in the scraper, \<^verbatim>\<open>search\<close> in the notifier), \<^verbatim>\<open>requests.get\<close>,
  \<^verbatim>\<open>BeautifulSoup\<close>, \<^verbatim>\<open>input\<close>, \<^verbatim>\<open>print\<close> and \<^verbatim>\<open>subprocess.run\<close>. None of them is part of
  the repository, so each one is a parameter of the model. A collaborator either
  returns or raises; one that talks to the outside (network, terminal, processes) also
  reads and changes a world of type \<open>'w\<close>, about which nothing is assumed. That holds
  for \<^verbatim>\<open>print\<close> too: writing to standard output can raise (UnicodeEncodeError for a
  character the stream cannot encode, OSError for a closed stream).

  A Python exception is a value. The only thing the scripts ever ask about an
  exception is whether it is an instance of \<^verbatim>\<open>Exception\<close> (the \<^verbatim>\<open>except Exception\<close>
  clause of \<^verbatim>\<open>scrape_page\<close>), so an exception carries the root of its class:
  \<open>Exception\<close> for every class derived from \<^verbatim>\<open>Exception\<close> (\<^verbatim>\<open>requests\<close>' ConnectionError,
  Timeout and HTTPError, KeyError, TypeError, ...), \<open>BaseException\<close> for the classes
  derived from \<^verbatim>\<open>BaseException\<close> only (KeyboardInterrupt, SystemExit, GeneratorExit).
  It also carries its class name and the text \<^verbatim>\<open>str(e)\<close>.

  A \<open>string\<close> models a Python \<^verbatim>\<open>str\<close>, one list element per character, so that
  \<open>length\<close> is \<^verbatim>\<open>len\<close> and \<open>take n\<close> is the slice \<^verbatim>\<open>[:n]\<close>.
\<close>

datatype exc_base = Exception | BaseException

datatype py_exception = Raised exc_base string string

fun isinstance_Exception :: "py_exception \<Rightarrow> bool" where
  "isinstance_Exception (Raised b c m) = (b = Exception)"

fun str_exc :: "py_exception \<Rightarrow> string" where
  "str_exc (Raised b c m) = m"

text \<open>\<^verbatim>\<open>r[k]\<close> on a dict without the key \<open>k\<close> raises \<^verbatim>\<open>KeyError(k)\<close>.\<close>

definition KeyError :: "string \<Rightarrow> py_exception" where
  "KeyError k = Raised Exception ''KeyError'' ([CHR 0x27] @ k @ [CHR 0x27])"

text \<open>
  What \<^verbatim>\<open>print\<close> receives. The text of a line is modelled exactly, except for the
  \<^verbatim>\<open>repr\<close> of the URL list, which is kept as the list itself after its prefix.
\<close>

datatype printed = Print string | Print_list string "string list"

text \<open>
  The state of a run: the outside world, the lines that \<^verbatim>\<open>print\<close> has written, and a
  log of the calls made to the search provider (query and \<^verbatim>\<open>max_results\<close>), to
  \<^verbatim>\<open>requests.get\<close> (URL) and to \<^verbatim>\<open>subprocess.run\<close> (argument vector).
\<close>

record 'w state =
  world :: 'w
  stdout :: "printed list"
  provider_calls :: "(string \<times> int) list"
  fetched :: "string list"
  spawned :: "string list list"

type_synonym result_dict = "string \<rightharpoonup> string"

text \<open>The built-in both scripts call: \<^verbatim>\<open>print\<close>, which returns or raises.\<close>

record 'w builtins =
  builtin_print :: "printed \<Rightarrow> 'w \<Rightarrow> py_exception option \<times> 'w"

text \<open>
  A call of \<^verbatim>\<open>print\<close>: when it raises, the exception is the outcome; when it returns,
  the line is written.
\<close>

definition print :: "('w, 'z) builtins_scheme \<Rightarrow> printed \<Rightarrow> 'w state \<Rightarrow> py_exception option \<times> 'w state" where
  "print env x s =
     (case builtin_print env x (world s) of
        (Some e, w1) \<Rightarrow> (Some e, s\<lparr>world := w1\<rparr>)
      | (None, w1) \<Rightarrow> (None, s\<lparr>world := w1, stdout := stdout s @ [x]\<rparr>))"

text \<open>The collaborators of \<^verbatim>\<open>duckduckgo_search_scrape.py\<close>.\<close>

record ('w, 'ddgs, 'resp, 'soup, 'tag) scrape_env = "'w builtins" +
  input :: "string \<Rightarrow> 'w \<Rightarrow> (py_exception + string) \<times> 'w"
  DDGS :: "'w \<Rightarrow> (py_exception + 'ddgs) \<times> 'w"
  ddgs_text :: "'ddgs \<Rightarrow> string \<Rightarrow> int \<Rightarrow> 'w \<Rightarrow> (py_exception + result_dict list) \<times> 'w"
  requests_get :: "string \<Rightarrow> int \<Rightarrow> 'w \<Rightarrow> (py_exception + 'resp) \<times> 'w"
  raise_for_status :: "'resp \<Rightarrow> py_exception option"
  response_text :: "'resp \<Rightarrow> py_exception + string"
  BeautifulSoup :: "string \<Rightarrow> string \<Rightarrow> py_exception + 'soup"
  find_all :: "'soup \<Rightarrow> string \<Rightarrow> py_exception + 'tag list"
  get_text :: "'tag \<Rightarrow> py_exception + string"

text \<open>The collaborators of \<^verbatim>\<open>daily_learn_notify.py\<close>.\<close>

record 'w notify_env = "'w builtins" +
  search :: "string \<Rightarrow> int \<Rightarrow> 'w \<Rightarrow> (py_exception + result_dict list) \<times> 'w"
  subprocess_run :: "string list \<Rightarrow> 'w \<Rightarrow> py_exception option \<times> 'w"

section \<open>The Python primitives the scripts use\<close>

text \<open>The comprehension \<^verbatim>\<open>[r[k] for r in results]\<close>: the first missing key raises.\<close>

fun subscript_each :: "string \<Rightarrow> result_dict list \<Rightarrow> py_exception + string list" where
  "subscript_each k [] = Inr []"
| "subscript_each k (r # rs) =
     (case r k of
        None \<Rightarrow> Inl (KeyError k)
      | Some v \<Rightarrow> (case subscript_each k rs of Inl e \<Rightarrow> Inl e | Inr vs \<Rightarrow> Inr (v # vs)))"

text \<open>\<^verbatim>\<open>sep.join(xs)\<close>.\<close>

fun join :: "string \<Rightarrow> string list \<Rightarrow> string" where
  "join sep [] = []"
| "join sep [x] = x"
| "join sep (x # y # ys) = x @ sep @ join sep (y # ys)"

text \<open>The generator \<^verbatim>\<open>(p.get_text() for p in paragraphs)\<close>, consumed from left to right.\<close>

fun get_text_each :: "('tag \<Rightarrow> py_exception + string) \<Rightarrow> 'tag list \<Rightarrow> py_exception + string list" where
  "get_text_each g [] = Inr []"
| "get_text_each g (p # ps) =
     (case g p of
        Inl e \<Rightarrow> Inl e
      | Inr t \<Rightarrow> (case get_text_each g ps of Inl e \<Rightarrow> Inl e | Inr ts \<Rightarrow> Inr (t # ts)))"

text \<open>\<^verbatim>\<open>str(n)\<close> for a length: the decimal digits of a natural number.\<close>

definition digit :: "nat \<Rightarrow> char" where
  "digit d = ''0123456789'' ! d"

fun str_nat :: "nat \<Rightarrow> string" where
  "str_nat n = (if n < 10 then [digit n] else str_nat (n div 10) @ [digit (n mod 10)])"

declare str_nat.simps [simp del]

text \<open>
  What a string of decimal digits denotes: the yardstick for \<open>str_nat\<close>, which has to
  write the number it was given. The value of a digit is its place among the ten digits.
\<close>

definition digit_value :: "char \<Rightarrow> nat" where
  "digit_value c = length (takeWhile (\<lambda>d. d \<noteq> c) ''0123456789'')"

definition nat_of_str :: "string \<Rightarrow> nat" where
  "nat_of_str ds = foldl (\<lambda>a c. 10 * a + digit_value c) 0 ds"

section \<open>duckduckgo\_search\_scrape.py\<close>

text \<open>
  \<^verbatim>\<open>duckduckgo_search(query, max_results=3)\<close>: construct the client, ask it for text
  results, read the \<^verbatim>\<open>'href'\<close> of each. Nothing is caught and \<^verbatim>\<open>max_results\<close> is
  handed over as it came.
\<close>

definition duckduckgo_search ::
  "('w, 'ddgs, 'resp, 'soup, 'tag) scrape_env \<Rightarrow> string \<Rightarrow> int \<Rightarrow> 'w state
     \<Rightarrow> (py_exception + string list) \<times> 'w state" where
  "duckduckgo_search env query max_results s =
     (case DDGS env (world s) of
        (Inl e, w1) \<Rightarrow> (Inl e, s\<lparr>world := w1\<rparr>)
      | (Inr ddgs, w1) \<Rightarrow>
          (case ddgs_text env ddgs query max_results w1 of
             (r, w2) \<Rightarrow>
               (let s2 = s\<lparr>world := w2,
                            provider_calls := provider_calls s @ [(query, max_results)]\<rparr>
                in case r of
                     Inl e \<Rightarrow> (Inl e, s2)
                   | Inr results \<Rightarrow>
                       (case subscript_each ''href'' results of
                          Inl e \<Rightarrow> (Inl e, s2)
                        | Inr urls \<Rightarrow> (Inr urls, s2)))))"

text \<open>
  Lines 17 to 20 of \<^verbatim>\<open>scrape_page\<close>, which touch nothing outside: parse the markup,
  find the \<^verbatim>\<open>p\<close> elements, join their texts with newlines, keep 2000 characters.
\<close>

definition extract_text ::
  "('w, 'ddgs, 'resp, 'soup, 'tag) scrape_env \<Rightarrow> 'resp \<Rightarrow> py_exception + string" where
  "extract_text env res =
     (case response_text env res of
        Inl e \<Rightarrow> Inl e
      | Inr markup \<Rightarrow>
          (case BeautifulSoup env markup ''html.parser'' of
             Inl e \<Rightarrow> Inl e
           | Inr soup \<Rightarrow>
               (case find_all env soup ''p'' of
                  Inl e \<Rightarrow> Inl e
                | Inr paragraphs \<Rightarrow>
                    (case get_text_each (get_text env) paragraphs of
                       Inl e \<Rightarrow> Inl e
                     | Inr texts \<Rightarrow> Inr (take 2000 (join [CHR 0x0A] texts))))))"

text \<open>The body of the \<^verbatim>\<open>try\<close> block of \<^verbatim>\<open>scrape_page\<close> (lines 15 to 20).\<close>

definition scrape_page_try ::
  "('w, 'ddgs, 'resp, 'soup, 'tag) scrape_env \<Rightarrow> string \<Rightarrow> 'w state
     \<Rightarrow> (py_exception + string) \<times> 'w state" where
  "scrape_page_try env url s =
     (case requests_get env url 5 (world s) of
        (r, w1) \<Rightarrow>
          (let s1 = s\<lparr>world := w1, fetched := fetched s @ [url]\<rparr>
           in case r of
                Inl e \<Rightarrow> (Inl e, s1)
              | Inr res \<Rightarrow>
                  (case raise_for_status env res of
                     Some e \<Rightarrow> (Inl e, s1)
                   | None \<Rightarrow> (extract_text env res, s1))))"

text \<open>The two f-strings printed around a page: lines 22 and 30.\<close>

definition failure_line :: "string \<Rightarrow> py_exception \<Rightarrow> string" where
  "failure_line url e = ''Failed to scrape '' @ url @ '': '' @ str_exc e"

definition header_line :: "string \<Rightarrow> string" where
  "header_line url = [CHR 0x0A] @ ''--- Content from '' @ url @ '' ---''"

text \<open>
  \<^verbatim>\<open>scrape_page(url)\<close>: the \<^verbatim>\<open>try\<close> block under \<^verbatim>\<open>except Exception as e\<close>. For an
  exception that is an instance of \<^verbatim>\<open>Exception\<close> the handler prints the failure line
  and returns the empty string; the \<^verbatim>\<open>print\<close> of line 22 stands in the handler, outside
  the \<^verbatim>\<open>try\<close>, so an exception it raises leaves the function. Any other exception is
  not matched by the clause and leaves the function as well.
\<close>

definition scrape_page ::
  "('w, 'ddgs, 'resp, 'soup, 'tag) scrape_env \<Rightarrow> string \<Rightarrow> 'w state
     \<Rightarrow> (py_exception + string) \<times> 'w state" where
  "scrape_page env url s =
     (case scrape_page_try env url s of
        (Inr text, s1) \<Rightarrow> (Inr text, s1)
      | (Inl e, s1) \<Rightarrow>
          (if isinstance_Exception e
           then (case print env (Print (failure_line url e)) s1 of
                   (Some e', s2) \<Rightarrow> (Inl e', s2)
                 | (None, s2) \<Rightarrow> (Inr [], s2))
           else (Inl e, s1)))"

text \<open>
  The \<^verbatim>\<open>for url in urls\<close> loop of the main block (lines 29 to 32). The loop prints;
  the model also returns, for each URL in turn, the value bound to \<^verbatim>\<open>content\<close>.
  Nothing in the loop is caught: an exception of \<^verbatim>\<open>scrape_page\<close> or of one of the two
  \<^verbatim>\<open>print\<close> calls ends it.
\<close>

fun scrape_urls ::
  "('w, 'ddgs, 'resp, 'soup, 'tag) scrape_env \<Rightarrow> string list \<Rightarrow> 'w state
     \<Rightarrow> (py_exception + (string \<times> string) list) \<times> 'w state" where
  "scrape_urls env [] s = (Inr [], s)"
| "scrape_urls env (url # urls) s =
     (case print env (Print (header_line url)) s of
        (Some e, s1) \<Rightarrow> (Inl e, s1)
      | (None, s1) \<Rightarrow>
          (case scrape_page env url s1 of
             (Inl e, s2) \<Rightarrow> (Inl e, s2)
           | (Inr content, s2) \<Rightarrow>
               (case print env (Print content) s2 of
                  (Some e, s3) \<Rightarrow> (Inl e, s3)
                | (None, s3) \<Rightarrow>
                    (case scrape_urls env urls s3 of
                       (Inl e, s4) \<Rightarrow> (Inl e, s4)
                     | (Inr entries, s4) \<Rightarrow> (Inr ((url, content) # entries), s4)))))"

text \<open>The main block (lines 26 to 32); \<^verbatim>\<open>duckduckgo_search(query)\<close> takes the default 3.\<close>

definition scrape_main ::
  "('w, 'ddgs, 'resp, 'soup, 'tag) scrape_env \<Rightarrow> 'w state
     \<Rightarrow> (py_exception + (string \<times> string) list) \<times> 'w state" where
  "scrape_main env s =
     (case input env ''Enter search query: '' (world s) of
        (Inl e, w1) \<Rightarrow> (Inl e, s\<lparr>world := w1\<rparr>)
      | (Inr query, w1) \<Rightarrow>
          (case duckduckgo_search env query 3 (s\<lparr>world := w1\<rparr>) of
             (Inl e, s2) \<Rightarrow> (Inl e, s2)
           | (Inr urls, s2) \<Rightarrow>
               (case print env (Print_list ''Found URLs: '' urls) s2 of
                  (Some e, s3) \<Rightarrow> (Inl e, s3)
                | (None, s3) \<Rightarrow> scrape_urls env urls s3)))"

section \<open>daily\_learn\_notify.py\<close>

text \<open>The f-string of line 13.\<close>

definition notify_message :: "string \<Rightarrow> string list \<Rightarrow> string" where
  "notify_message query urls =
     ''Search done for '' @ [CHR 0x27] @ query @ [CHR 0x27] @ '', found ''
       @ str_nat (length urls) @ '' results.''"

text \<open>
  \<^verbatim>\<open>search_and_notify(query)\<close>. Nothing is caught, the two \<^verbatim>\<open>print\<close> calls included;
  \<^verbatim>\<open>subprocess.run\<close> is called without \<^verbatim>\<open>check\<close>, so only a failure to start the
  process raises.
\<close>

definition search_and_notify :: "'w notify_env \<Rightarrow> string \<Rightarrow> 'w state \<Rightarrow> (py_exception + unit) \<times> 'w state" where
  "search_and_notify env query s =
     (case print env (Print (''Running search for: '' @ query)) s of
        (Some e, s0) \<Rightarrow> (Inl e, s0)
      | (None, s0) \<Rightarrow>
          (case search env query 3 (world s0) of
             (r, w1) \<Rightarrow>
               (let s1 = s0\<lparr>world := w1, provider_calls := provider_calls s0 @ [(query, 3)]\<rparr>
                in case r of
                     Inl e \<Rightarrow> (Inl e, s1)
                   | Inr results \<Rightarrow>
                       (case subscript_each ''url'' results of
                          Inl e \<Rightarrow> (Inl e, s1)
                        | Inr urls \<Rightarrow>
                            (case print env (Print_list ''Found URLs: '' urls) s1 of
                               (Some e, s2) \<Rightarrow> (Inl e, s2)
                             | (None, s2) \<Rightarrow>
                                 (let argv = [''notify-send'', ''TinyLlama'', notify_message query urls]
                                  in case subprocess_run env argv (world s2) of
                                       (r', w3) \<Rightarrow>
                                         (let s3 = s2\<lparr>world := w3, spawned := spawned s2 @ [argv]\<rparr>
                                          in case r' of
                                               Some e \<Rightarrow> (Inl e, s3)
                                             | None \<Rightarrow> (Inr (), s3))))))))"

text \<open>The main block: \<^verbatim>\<open>search_and_notify()\<close> with the default query.\<close>

definition notify_main :: "'w notify_env \<Rightarrow> 'w state \<Rightarrow> (py_exception + unit) \<times> 'w state" where
  "notify_main env s = search_and_notify env ''latest tech news'' s"

section \<open>Test doubles for the collaborators\<close>

text \<open>
  Concrete collaborators on which the theorems below are exercised. The world is a
  counter of the calls made to the network and to processes. A response is a status
  code and a body, and \<^verbatim>\<open>raise_for_status\<close> rejects what \<^verbatim>\<open>requests\<close> rejects, the
  statuses from 400 to 599. The toy parser sees an empty body as a page without
  paragraphs and any other body as one paragraph. The \<^verbatim>\<open>print\<close> of the doubles always
  returns; \<open>stub_print\<close> is the \<^verbatim>\<open>print\<close> of a standard output that cannot encode the
  character \<open>0xE9\<close> and raises on a line that holds it.
\<close>

fun unprintable :: "printed \<Rightarrow> bool" where
  "unprintable (Print l) = (CHR 0xE9 \<in> set l)"
| "unprintable (Print_list l us) = (CHR 0xE9 \<in> set l \<or> (\<exists>u\<in>set us. CHR 0xE9 \<in> set u))"

definition stub_print :: "printed \<Rightarrow> nat \<Rightarrow> py_exception option \<times> nat" where
  "stub_print x w =
     (if unprintable x
      then (Some (Raised Exception ''UnicodeEncodeError'' ''codec cannot encode character''), w)
      else (None, w))"

definition stub_fetch :: "string \<Rightarrow> py_exception + nat \<times> string" where
  "stub_fetch url =
     (if url = ''http://a.example'' then Inr (200, ''alpha'')
      else if url = ''http://b.example'' then Inr (404, ''not found'')
      else if url = ''http://c.example'' then Inr (200, ''gamma'')
      else if url = ''http://long.example'' then Inr (200, replicate 2500 (CHR ''x''))
      else if url = ''http://empty.example'' then Inr (200, [])
      else if url = ''http://moved.example'' then Inr (300, ''choices'')
      else if url = ''http://slow.example'' then Inl (Raised Exception ''Timeout'' ''timed out'')
      else if url = ''http://accent.example''
        then Inl (Raised Exception ''ConnectionError'' (''caf'' @ [CHR 0xE9]))
      else if url = ''http://stop.example'' then Inl (Raised BaseException ''KeyboardInterrupt'' [])
      else Inl (Raised Exception ''ConnectionError'' ''unreachable''))"

definition stub_env ::
  "(py_exception + result_dict list) \<Rightarrow> (nat, unit, nat \<times> string, string list, string) scrape_env" where
  "stub_env answer =
     \<lparr> builtin_print = (\<lambda>x w. (None, w)),
       input = (\<lambda>prompt w. (Inr ''cats'', w)),
       DDGS = (\<lambda>w. (Inr (), w)),
       ddgs_text = (\<lambda>d q n w. (answer, Suc w)),
       requests_get = (\<lambda>url t w. (stub_fetch url, Suc w)),
       raise_for_status =
         (\<lambda>(code, body). if 400 \<le> code \<and> code < 600
                          then Some (Raised Exception ''HTTPError'' ''client or server error'')
                          else None),
       response_text = (\<lambda>(code, body). Inr body),
       BeautifulSoup = (\<lambda>markup parser. Inr (if markup = [] then [] else [markup])),
       find_all = (\<lambda>soup name. Inr soup),
       get_text = (\<lambda>p. Inr p) \<rparr>"

definition stub_notify :: "(py_exception + result_dict list) \<Rightarrow> nat notify_env" where
  "stub_notify answer =
     \<lparr> builtin_print = (\<lambda>x w. (None, w)),
       search = (\<lambda>q n w. (answer, Suc w)),
       subprocess_run = (\<lambda>argv w. (None, Suc w)) \<rparr>"

definition three_results :: "string \<Rightarrow> result_dict list" where
  "three_results key =
     [[key \<mapsto> ''http://a.example''], [key \<mapsto> ''http://b.example''], [key \<mapsto> ''http://c.example'']]"

definition unreachable :: py_exception where
  "unreachable = Raised Exception ''ConnectionError'' ''provider unreachable''"

definition s0 :: "nat state" where
  "s0 = \<lparr>world = 0, stdout = [], provider_calls = [], fetched = [], spawned = []\<rparr>"

section \<open>Properties of print\<close>

lemma print_returns:
  "print env x s = (None, s1) \<Longrightarrow>
     stdout s1 = stdout s @ [x] \<and> fetched s1 = fetched s
     \<and> provider_calls s1 = provider_calls s \<and> spawned s1 = spawned s"
  by (auto simp: print_def split: prod.splits option.splits)

lemma print_raises:
  "print env x s = (Some e, s1) \<Longrightarrow>
     stdout s1 = stdout s \<and> fetched s1 = fetched s
     \<and> provider_calls s1 = provider_calls s \<and> spawned s1 = spawned s"
  by (auto simp: print_def split: prod.splits option.splits)

lemma print_fst: "fst (print env x s) = fst (builtin_print env x (world s))"
  by (simp add: print_def split: prod.splits option.splits)

lemma print_None:
  "fst (builtin_print env x (world s)) = None \<Longrightarrow>
     print env x s = (None, s\<lparr>world := snd (builtin_print env x (world s)), stdout := stdout s @ [x]\<rparr>)"
  by (cases "builtin_print env x (world s)") (simp add: print_def)

section \<open>Properties of scrape\_page\<close>

lemma extract_text_length: "extract_text env res = Inr content \<Longrightarrow> length content \<le> 2000"
  by (auto simp: extract_text_def split: sum.splits)

lemma scrape_page_try_length:
  "scrape_page_try env url s = (Inr content, s') \<Longrightarrow> length content \<le> 2000"
  by (auto simp: scrape_page_try_def Let_def extract_text_length
           split: prod.splits sum.splits option.splits)

lemma scrape_page_success:
  "scrape_page_try env url s = (Inr t, s1) \<Longrightarrow> scrape_page env url s = (Inr t, s1)"
  by (simp add: scrape_page_def)

lemma scrape_page_caught:
  "scrape_page_try env url s = (Inl e, s1) \<Longrightarrow> isinstance_Exception e \<Longrightarrow>
     print env (Print (failure_line url e)) s1 = (None, s2) \<Longrightarrow>
     scrape_page env url s = (Inr [], s2)"
  by (simp add: scrape_page_def)

lemma scrape_page_handler_raises:
  "scrape_page_try env url s = (Inl e, s1) \<Longrightarrow> isinstance_Exception e \<Longrightarrow>
     print env (Print (failure_line url e)) s1 = (Some e', s2) \<Longrightarrow>
     scrape_page env url s = (Inl e', s2)"
  by (simp add: scrape_page_def)

lemma scrape_page_escapes:
  "scrape_page_try env url s = (Inl e, s1) \<Longrightarrow> \<not> isinstance_Exception e \<Longrightarrow>
     scrape_page env url s = (Inl e, s1)"
  by (simp add: scrape_page_def)

lemma scrape_page_Inr_length:
  "scrape_page env url s = (Inr t, s1) \<Longrightarrow> length t \<le> 2000"
  by (auto simp: scrape_page_def scrape_page_try_length
      split: prod.splits sum.splits if_splits option.splits)

lemma scrape_page_try_effects:
  "scrape_page_try env url s = (r, s1) \<Longrightarrow>
     fetched s1 = fetched s @ [url] \<and> stdout s1 = stdout s
     \<and> provider_calls s1 = provider_calls s \<and> spawned s1 = spawned s"
  by (auto simp: scrape_page_try_def Let_def split: prod.splits sum.splits option.splits)

lemma scrape_page_effects:
  "scrape_page env url s = (r, s1) \<Longrightarrow>
     fetched s1 = fetched s @ [url] \<and> (\<exists>d. stdout s1 = stdout s @ d \<and> length d \<le> 1)
     \<and> provider_calls s1 = provider_calls s \<and> spawned s1 = spawned s"
  by (auto simp: scrape_page_def split: prod.splits sum.splits if_splits option.splits
      dest!: scrape_page_try_effects print_returns print_raises)

text \<open>Where an exception of the \<^verbatim>\<open>try\<close> block comes from.\<close>

lemma get_text_each_Inl_D:
  "get_text_each g ps = Inl e \<Longrightarrow> \<exists>p\<in>set ps. g p = Inl e"
  by (induction ps) (auto split: sum.splits)

lemma extract_text_Inl_D:
  "extract_text env res = Inl e \<Longrightarrow>
     response_text env res = Inl e
     \<or> (\<exists>markup. BeautifulSoup env markup ''html.parser'' = Inl e)
     \<or> (\<exists>soup. find_all env soup ''p'' = Inl e)
     \<or> (\<exists>p. get_text env p = Inl e)"
  by (auto simp: extract_text_def split: sum.splits dest: get_text_each_Inl_D)

lemma scrape_page_try_Inl_D:
  "scrape_page_try env url s = (Inl e, s1) \<Longrightarrow>
     fst (requests_get env url 5 (world s)) = Inl e
     \<or> (\<exists>res. raise_for_status env res = Some e)
     \<or> (\<exists>res. extract_text env res = Inl e)"
  by (auto simp: scrape_page_try_def Let_def split: prod.splits sum.splits option.splits)

lemma scrape_page_try_run:
  "scrape_page_try env url s =
     ((case fst (requests_get env url 5 (world s)) of
         Inl e \<Rightarrow> Inl e
       | Inr res \<Rightarrow>
           (case raise_for_status env res of
              Some e \<Rightarrow> Inl e
            | None \<Rightarrow> extract_text env res)),
      s\<lparr>world := snd (requests_get env url 5 (world s)), fetched := fetched s @ [url]\<rparr>)"
  by (simp add: scrape_page_try_def Let_def split: prod.splits sum.splits option.splits)

lemma extract_text_no_paragraphs:
  "response_text env res = Inr markup \<Longrightarrow> BeautifulSoup env markup ''html.parser'' = Inr soup \<Longrightarrow>
     find_all env soup ''p'' = Inr [] \<Longrightarrow> extract_text env res = Inr []"
  by (simp add: extract_text_def)

text \<open>
  When the collaborators of the \<^verbatim>\<open>try\<close> block raise instances of \<^verbatim>\<open>Exception\<close> only and
  the handler's \<^verbatim>\<open>print\<close> returns, \<open>scrape_page\<close> returns.
\<close>

lemma scrape_page_try_only_Exception:
  assumes "\<And>w e. fst (requests_get env url 5 w) = Inl e \<Longrightarrow> isinstance_Exception e"
    and "\<And>res e. raise_for_status env res = Some e \<Longrightarrow> isinstance_Exception e"
    and "\<And>res e. response_text env res = Inl e \<Longrightarrow> isinstance_Exception e"
    and "\<And>markup e. BeautifulSoup env markup ''html.parser'' = Inl e \<Longrightarrow> isinstance_Exception e"
    and "\<And>soup e. find_all env soup ''p'' = Inl e \<Longrightarrow> isinstance_Exception e"
    and "\<And>p e. get_text env p = Inl e \<Longrightarrow> isinstance_Exception e"
    and "scrape_page_try env url s = (Inl e, s1)"
  shows "isinstance_Exception e"
  using scrape_page_try_Inl_D [OF assms(7)] assms(1-6)
  by (blast dest: extract_text_Inl_D)

lemma scrape_page_returns:
  assumes "\<And>e s1. scrape_page_try env url s = (Inl e, s1) \<Longrightarrow> isinstance_Exception e"
    and "\<And>e w. fst (builtin_print env (Print (failure_line url e)) w) = None"
  shows "\<exists>content s'. scrape_page env url s = (Inr content, s')
           \<and> (\<forall>e s1. scrape_page_try env url s = (Inl e, s1) \<longrightarrow> content = [])"
proof (cases "scrape_page_try env url s")
  case (Pair r s1)
  show ?thesis
  proof (cases r)
    case (Inr content)
    with Pair show ?thesis
      by (simp add: scrape_page_success)
  next
    case (Inl e)
    with Pair have raised: "scrape_page_try env url s = (Inl e, s1)"
      by simp
    then have exc: "isinstance_Exception e"
      by (rule assms(1))
    have "fst (print env (Print (failure_line url e)) s1) = None"
      by (simp add: print_fst assms(2))
    then obtain s2 where "print env (Print (failure_line url e)) s1 = (None, s2)"
      by (cases "print env (Print (failure_line url e)) s1") simp
    from scrape_page_caught [OF raised exc this] raised show ?thesis
      by simp
  qed
qed

section \<open>Properties of the scraping loop\<close>

lemma scrape_urls_append:
  "scrape_urls env (xs @ ys) s =
     (case scrape_urls env xs s of
        (Inl e, s1) \<Rightarrow> (Inl e, s1)
      | (Inr es, s1) \<Rightarrow>
          (case scrape_urls env ys s1 of
             (Inl e, s2) \<Rightarrow> (Inl e, s2)
           | (Inr es', s2) \<Rightarrow> (Inr (es @ es'), s2)))"
  by (induction xs arbitrary: s) (auto split: prod.splits sum.splits option.splits)

lemma scrape_urls_Cons_Inr_D:
  assumes "scrape_urls env (url # urls) s = (Inr entries, s')"
  obtains s1 content s2 s3 rest where
    "print env (Print (header_line url)) s = (None, s1)"
    "scrape_page env url s1 = (Inr content, s2)"
    "print env (Print content) s2 = (None, s3)"
    "scrape_urls env urls s3 = (Inr rest, s')"
    "entries = (url, content) # rest"
  using assms by (auto split: prod.splits sum.splits option.splits)

lemma scrape_urls_Inr:
  "scrape_urls env urls s = (Inr entries, s') \<Longrightarrow>
     map fst entries = urls \<and> fetched s' = fetched s @ urls \<and>
     (\<exists>diags. length diags = length urls \<and> (\<forall>d\<in>set diags. length d \<le> 1) \<and>
        stdout s' = stdout s @
          concat (map (\<lambda>((u, c), d). Print (header_line u) # d @ [Print c]) (zip entries diags)))"
proof (induction urls arbitrary: s entries)
  case Nil
  then show ?case by simp
next
  case (Cons url urls)
  from Cons.prems obtain s1 content s2 s3 rest where
    header: "print env (Print (header_line url)) s = (None, s1)" and
    page: "scrape_page env url s1 = (Inr content, s2)" and
    shown: "print env (Print content) s2 = (None, s3)" and
    tail: "scrape_urls env urls s3 = (Inr rest, s')" and
    entries: "entries = (url, content) # rest"
    by (rule scrape_urls_Cons_Inr_D)
  from scrape_page_effects [OF page] print_returns [OF header] obtain d where
    f1: "fetched s2 = fetched s @ [url]" and
    o1: "stdout s2 = stdout s @ Print (header_line url) # d" and
    d: "length d \<le> 1"
    by auto
  from print_returns [OF shown] f1 o1 have
    f3: "fetched s3 = fetched s @ [url]" and
    o3: "stdout s3 = stdout s @ Print (header_line url) # d @ [Print content]"
    by simp_all
  from Cons.IH [OF tail] obtain diags where
    m: "map fst rest = urls" and
    f2: "fetched s' = fetched s3 @ urls" and
    len: "length diags = length urls" and
    short: "\<forall>d\<in>set diags. length d \<le> 1" and
    o2: "stdout s' = stdout s3 @
           concat (map (\<lambda>((u, c), d). Print (header_line u) # d @ [Print c]) (zip rest diags))"
    by blast
  have "length (d # diags) = length (url # urls)"
    using len by simp
  moreover have "\<forall>x\<in>set (d # diags). length x \<le> 1"
    using d short by simp
  moreover have "stdout s' = stdout s @
      concat (map (\<lambda>((u, c), d). Print (header_line u) # d @ [Print c]) (zip entries (d # diags)))"
    using o3 o2 entries by simp
  ultimately have "\<exists>diags. length diags = length (url # urls) \<and> (\<forall>d\<in>set diags. length d \<le> 1) \<and>
        stdout s' = stdout s @
          concat (map (\<lambda>((u, c), d). Print (header_line u) # d @ [Print c]) (zip entries diags))"
    by blast
  moreover have "map fst entries = url # urls"
    using m entries by simp
  moreover have "fetched s' = fetched s @ url # urls"
    using f3 f2 by simp
  ultimately show ?case by blast
qed

text \<open>
  The loop runs to its end when, for each of its URLs, the \<^verbatim>\<open>try\<close> block raises
  instances of \<^verbatim>\<open>Exception\<close> only, and every \<^verbatim>\<open>print\<close> returns.
\<close>

lemma scrape_urls_returns:
  assumes "\<And>url s0 e s1. url \<in> set urls \<Longrightarrow> scrape_page_try env url s0 = (Inl e, s1)
             \<Longrightarrow> isinstance_Exception e"
    and prints: "\<And>x w. fst (builtin_print env x w) = None"
  shows "\<exists>entries s'. scrape_urls env urls s = (Inr entries, s')"
  using assms(1)
proof (induction urls arbitrary: s)
  case Nil
  show ?case by simp
next
  case (Cons url urls)
  have p: "\<And>x t. \<exists>t'. print env x t = (None, t')"
    using print_fst prints by (metis prod.collapse)
  from p obtain s1 where header: "print env (Print (header_line url)) s = (None, s1)"
    by blast
  have "\<exists>content s'. scrape_page env url s1 = (Inr content, s')
           \<and> (\<forall>e s'. scrape_page_try env url s1 = (Inl e, s') \<longrightarrow> content = [])"
    by (rule scrape_page_returns) (use Cons.prems prints in auto)
  then obtain content s2 where page: "scrape_page env url s1 = (Inr content, s2)"
    by blast
  from p obtain s3 where shown: "print env (Print content) s2 = (None, s3)"
    by blast
  have "\<exists>entries s'. scrape_urls env urls s3 = (Inr entries, s')"
    by (rule Cons.IH) (use Cons.prems in auto)
  then obtain rest s' where tail: "scrape_urls env urls s3 = (Inr rest, s')"
    by blast
  have "scrape_urls env (url # urls) s = (Inr ((url, content) # rest), s')"
    using header page shown tail by simp
  then show ?case by blast
qed

section \<open>Properties of the Search step and of the main block\<close>

lemma subscript_each_missing:
  "r \<in> set results \<Longrightarrow> r k = None \<Longrightarrow> subscript_each k results = Inl (KeyError k)"
  by (induction results) (auto split: option.splits sum.splits)

lemma subscript_each_length:
  "subscript_each k results = Inr vs \<Longrightarrow> length vs = length results"
  by (induction results arbitrary: vs) (auto split: option.splits sum.splits)

lemma duckduckgo_search_run:
  "DDGS env (world s) = (Inr d, w1) \<Longrightarrow>
     duckduckgo_search env query n s =
       ((case fst (ddgs_text env d query n w1) of
           Inl e \<Rightarrow> Inl e
         | Inr results \<Rightarrow> subscript_each ''href'' results),
        s\<lparr>world := snd (ddgs_text env d query n w1),
          provider_calls := provider_calls s @ [(query, n)]\<rparr>)"
  by (simp add: duckduckgo_search_def Let_def split: prod.splits sum.splits)

lemma duckduckgo_search_fst:
  "fst (duckduckgo_search env query n s) =
     (case fst (DDGS env (world s)) of
        Inl e \<Rightarrow> Inl e
      | Inr d \<Rightarrow>
          (case fst (ddgs_text env d query n (snd (DDGS env (world s)))) of
             Inl e \<Rightarrow> Inl e
           | Inr results \<Rightarrow> subscript_each ''href'' results))"
  by (simp add: duckduckgo_search_def Let_def split: prod.splits sum.splits)

lemma duckduckgo_search_effects:
  "duckduckgo_search env query n s = (r, s1) \<Longrightarrow>
     fetched s1 = fetched s \<and> stdout s1 = stdout s \<and> spawned s1 = spawned s"
  by (auto simp: duckduckgo_search_def Let_def split: prod.splits sum.splits)

lemma scrape_main_search_fails:
  "input env ''Enter search query: '' (world s) = (Inr query, w0) \<Longrightarrow>
     fst (duckduckgo_search env query 3 (s\<lparr>world := w0\<rparr>)) = Inl e \<Longrightarrow>
     scrape_main env s = (Inl e, snd (duckduckgo_search env query 3 (s\<lparr>world := w0\<rparr>)))"
  by (cases "duckduckgo_search env query 3 (s\<lparr>world := w0\<rparr>)") (simp add: scrape_main_def)

lemma scrape_main_run:
  "input env ''Enter search query: '' (world s) = (Inr query, w0) \<Longrightarrow>
     duckduckgo_search env query 3 (s\<lparr>world := w0\<rparr>) = (Inr urls, s1) \<Longrightarrow>
     scrape_main env s =
       (case print env (Print_list ''Found URLs: '' urls) s1 of
          (Some e, s2) \<Rightarrow> (Inl e, s2)
        | (None, s2) \<Rightarrow> scrape_urls env urls s2)"
  by (simp add: scrape_main_def)

lemma scrape_main_no_urls:
  assumes "input env ''Enter search query: '' (world s) = (Inr query, w0)"
    and "fst (duckduckgo_search env query 3 (s\<lparr>world := w0\<rparr>)) = Inr []"
  shows "fst (scrape_main env s) =
           (case fst (print env (Print_list ''Found URLs: '' [])
                        (snd (duckduckgo_search env query 3 (s\<lparr>world := w0\<rparr>)))) of
              Some e \<Rightarrow> Inl e
            | None \<Rightarrow> Inr [])
       \<and> fetched (snd (scrape_main env s)) = fetched s"
proof -
  obtain s1 where run: "duckduckgo_search env query 3 (s\<lparr>world := w0\<rparr>) = (Inr [], s1)"
    using assms(2) by (cases "duckduckgo_search env query 3 (s\<lparr>world := w0\<rparr>)") simp
  from duckduckgo_search_effects [OF run] have f: "fetched s1 = fetched s"
    by simp
  obtain r s2 where p: "print env (Print_list ''Found URLs: '' []) s1 = (r, s2)"
    by (cases "print env (Print_list ''Found URLs: '' []) s1")
  have "fetched s2 = fetched s1"
    using p print_returns [of env _ s1 s2] print_raises [of env _ s1 _ s2] by (cases r) auto
  with f p run scrape_main_run [OF assms(1) run] show ?thesis
    by (cases r) simp_all
qed

section \<open>Properties of the notifier\<close>

lemma search_and_notify_print_raises:
  "print nenv (Print (''Running search for: '' @ query)) s = (Some e, s1) \<Longrightarrow>
     search_and_notify nenv query s = (Inl e, s1)"
  by (simp add: search_and_notify_def)

lemma search_and_notify_search_raises:
  "print nenv (Print (''Running search for: '' @ query)) s = (None, s1) \<Longrightarrow>
     fst (search nenv query 3 (world s1)) = Inl e \<Longrightarrow>
     fst (search_and_notify nenv query s) = Inl e
     \<and> spawned (snd (search_and_notify nenv query s)) = spawned s"
  by (cases "search nenv query 3 (world s1)")
     (auto simp: search_and_notify_def Let_def dest: print_returns)

lemma search_and_notify_subscript_raises:
  "print nenv (Print (''Running search for: '' @ query)) s = (None, s1) \<Longrightarrow>
     fst (search nenv query 3 (world s1)) = Inr results \<Longrightarrow>
     subscript_each ''url'' results = Inl e \<Longrightarrow>
     fst (search_and_notify nenv query s) = Inl e
     \<and> spawned (snd (search_and_notify nenv query s)) = spawned s"
  by (cases "search nenv query 3 (world s1)")
     (auto simp: search_and_notify_def Let_def dest: print_returns)

lemma search_and_notify_run:
  assumes "print nenv (Print (''Running search for: '' @ query)) s = (None, s1)"
    and "search nenv query 3 (world s1) = (Inr results, w2)"
    and "subscript_each ''url'' results = Inr urls"
    and "print nenv (Print_list ''Found URLs: '' urls)
           (s1\<lparr>world := w2, provider_calls := provider_calls s1 @ [(query, 3)]\<rparr>) = (None, s3)"
    and "subprocess_run nenv [''notify-send'', ''TinyLlama'', notify_message query urls] (world s3)
           = (r, w4)"
  shows "search_and_notify nenv query s =
           ((case r of Some e \<Rightarrow> Inl e | None \<Rightarrow> Inr ()),
            s3\<lparr>world := w4,
               spawned := spawned s3 @ [[''notify-send'', ''TinyLlama'', notify_message query urls]]\<rparr>)"
  using assms by (cases r) (simp_all add: search_and_notify_def Let_def)

text \<open>\<open>str_nat\<close> writes the decimal numeral of its argument.\<close>

lemma str_nat_digit: "n < 10 \<Longrightarrow> str_nat n = [digit n]"
  by (simp add: str_nat.simps)

lemma str_nat_step: "\<not> n < 10 \<Longrightarrow> str_nat n = str_nat (n div 10) @ [digit (n mod 10)]"
  by (subst str_nat.simps) simp

lemma str_nat_0: "str_nat 0 = ''0''"
  by (simp add: str_nat_digit digit_def)

lemma str_nat_3: "str_nat 3 = ''3''"
  by (simp add: str_nat_digit digit_def)

lemma str_nat_12: "str_nat 12 = ''12''"
  by (simp add: str_nat.simps digit_def)

lemma below_ten: "d < 10 \<Longrightarrow> d \<in> {0, 1, 2, 3, 4, 5, 6, 7, 8, 9 :: nat}"
  by auto

lemma digit_value_digit: "d < 10 \<Longrightarrow> digit_value (digit d) = d"
  by (drule below_ten) (auto simp: digit_def digit_value_def)

lemma digit_in_digits: "d < 10 \<Longrightarrow> digit d \<in> set ''0123456789''"
  by (drule below_ten) (auto simp: digit_def)

lemma digit_not_zero: "d < 10 \<Longrightarrow> d \<noteq> 0 \<Longrightarrow> digit d \<noteq> CHR ''0''"
  by (drule below_ten) (auto simp: digit_def)

lemma nat_of_str_snoc: "nat_of_str (ds @ [c]) = 10 * nat_of_str ds + digit_value c"
  by (simp add: nat_of_str_def)

lemma nat_of_str_str_nat: "nat_of_str (str_nat n) = n"
proof (induction n rule: str_nat.induct)
  case (1 n)
  show ?case
  proof (cases "n < 10")
    case True
    then show ?thesis
      by (simp add: str_nat_digit nat_of_str_def digit_value_digit)
  next
    case False
    with "1" have "nat_of_str (str_nat (n div 10)) = n div 10"
      by simp
    with False show ?thesis
      by (simp add: str_nat_step nat_of_str_snoc digit_value_digit)
  qed
qed

lemma str_nat_digits: "set (str_nat n) \<subseteq> set ''0123456789''"
proof (induction n rule: str_nat.induct)
  case (1 n)
  show ?case
  proof (cases "n < 10")
    case True
    then show ?thesis
      using digit_in_digits [of n] by (simp add: str_nat_digit)
  next
    case False
    with "1" have "set (str_nat (n div 10)) \<subseteq> set ''0123456789''"
      by simp
    with False show ?thesis
      using digit_in_digits [of "n mod 10"] by (simp add: str_nat_step)
  qed
qed

lemma str_nat_not_Nil: "str_nat n \<noteq> []"
  by (cases "n < 10") (simp_all add: str_nat_digit str_nat_step)

lemma str_nat_no_leading_zero: "n \<noteq> 0 \<Longrightarrow> hd (str_nat n) \<noteq> CHR ''0''"
proof (induction n rule: str_nat.induct)
  case (1 n)
  show ?case
  proof (cases "n < 10")
    case True
    with "1.prems" show ?thesis
      by (simp add: str_nat_digit digit_not_zero)
  next
    case False
    then have "n div 10 \<noteq> 0"
      by simp
    with "1.IH" False have "hd (str_nat (n div 10)) \<noteq> CHR ''0''"
      by simp
    with False show ?thesis
      by (simp add: str_nat_step str_nat_not_Nil)
  qed
qed

text \<open>Unfolding the test doubles and the straight-line definitions on concrete inputs.\<close>

lemmas stub_simps = stub_env_def stub_fetch_def stub_notify_def stub_print_def three_results_def
  s0_def unreachable_def scrape_page_def scrape_page_try_def extract_text_def print_def Let_def
  failure_line_def header_line_def duckduckgo_search_def scrape_main_def
  search_and_notify_def notify_main_def notify_message_def KeyError_def

section \<open>The claims\<close>

text \<open>
  C2. Whatever \<open>scrape_page\<close> returns has at most 2000 characters; in particular the
  text of every successful fetch, which is cut by the slice \<^verbatim>\<open>text[:2000]\<close>. The
  witness fetches a page of 2500 characters and gets 2000 of them.
\<close>

theorem scrape_page_text_bounded:
  "fst (scrape_page env url s) = Inr content \<Longrightarrow> length content \<le> 2000"
  using scrape_page_Inr_length [of env url s content "snd (scrape_page env url s)"]
  by (simp add: prod_eq_iff)

theorem scrape_page_text_bounded_witness:
  "fst (scrape_page (stub_env (Inr [])) ''http://long.example'' s0) = Inr (replicate 2000 (CHR ''x''))
   \<and> length (replicate 2000 (CHR ''x'')) \<le> 2000"
  using scrape_page_text_bounded [of "stub_env (Inr [])" "''http://long.example''" s0 "replicate 2000 (CHR ''x'')"]
  by (simp add: stub_simps)

text \<open>
  C1, as stated, fails twice. First, not every status outside 2xx is a failure:
  \<^verbatim>\<open>raise_for_status\<close> raises for the statuses 400 to 599 only, so a page answered with
  300 is scraped and its entry carries the text of the page, not the empty string.
  Second, the handler itself can end the loop: its \<^verbatim>\<open>print\<close> stands outside the \<^verbatim>\<open>try\<close>,
  and when the failure line cannot be written (here the message of the exception holds a
  character that standard output cannot encode) the exception of \<^verbatim>\<open>print\<close> leaves
  \<open>scrape_page\<close> and the loop; the third URL is never fetched.
\<close>

theorem accepted_status_is_scraped_and_handler_print_ends_loop:
  "fst (requests_get (stub_env (Inr [])) ''http://moved.example'' 5 (world s0)) = Inr (300, ''choices'')
   \<and> fst (scrape_page (stub_env (Inr [])) ''http://moved.example'' s0) = Inr ''choices''
   \<and> fst (scrape_urls ((stub_env (Inr []))\<lparr>builtin_print := stub_print\<rparr>)
            [''http://a.example'', ''http://accent.example'', ''http://c.example''] s0)
       = Inl (Raised Exception ''UnicodeEncodeError'' ''codec cannot encode character'')
   \<and> fetched (snd (scrape_urls ((stub_env (Inr []))\<lparr>builtin_print := stub_print\<rparr>)
            [''http://a.example'', ''http://accent.example'', ''http://c.example''] s0))
       = [''http://a.example'', ''http://accent.example'']"
  by (simp add: stub_simps)

text \<open>
  C1, amended. A URL for which the \<^verbatim>\<open>try\<close> block raises an instance of \<^verbatim>\<open>Exception\<close>,
  be it raised by \<^verbatim>\<open>requests.get\<close> (network error, timeout), by \<^verbatim>\<open>raise_for_status\<close>
  (a status it rejects) or by the parsing, is recorded with the empty string, and when
  the lines around it are printed (header, failure line, content) the loop goes on:
  the run over \<open>pre @ url # post\<close> is the run over \<open>post\<close> from the state after the
  failure, with \<open>(url, [])\<close> recorded between the entries of \<open>pre\<close> and those of \<open>post\<close>.
  A response that \<^verbatim>\<open>raise_for_status\<close> accepts, whatever its status, is scraped as a
  success. The witness is the scenario of three URLs of which the second answers 404:
  three entries, the second empty, the first and the third carrying their page text;
  and a page answered with 300, which is scraped.
\<close>

theorem failed_url_does_not_stop_the_loop:
  assumes "scrape_urls env pre s = (Inr es, s1)"
    and "print env (Print (header_line url)) s1 = (None, s2)"
    and "fst (requests_get env url 5 (world s2)) = Inl e
         \<or> (\<exists>res. fst (requests_get env url 5 (world s2)) = Inr res
               \<and> (raise_for_status env res = Some e
                    \<or> raise_for_status env res = None \<and> extract_text env res = Inl e))"
    and "isinstance_Exception e"
    and "print env (Print (failure_line url e))
           (s2\<lparr>world := snd (requests_get env url 5 (world s2)), fetched := fetched s2 @ [url]\<rparr>)
           = (None, s3)"
    and "print env (Print []) s3 = (None, s4)"
  shows "scrape_page env url s2 = (Inr [], s3)
       \<and> scrape_urls env (pre @ url # post) s =
           (case scrape_urls env post s4 of
              (Inl e', s5) \<Rightarrow> (Inl e', s5)
            | (Inr es', s5) \<Rightarrow> (Inr (es @ (url, []) # es'), s5))
       \<and> (fst (requests_get env url' 5 (world t)) = Inr res'
            \<and> raise_for_status env res' = None \<and> extract_text env res' = Inr content
          \<longrightarrow> fst (scrape_page env url' t) = Inr content)"
proof -
  let ?s = "s2\<lparr>world := snd (requests_get env url 5 (world s2)), fetched := fetched s2 @ [url]\<rparr>"
  have raised: "scrape_page_try env url s2 = (Inl e, ?s)"
    using assms(3) by (auto simp: scrape_page_try_run)
  have page: "scrape_page env url s2 = (Inr [], s3)"
    using raised assms(4,5) by (rule scrape_page_caught)
  have "scrape_urls env (url # post) s1 =
          (case scrape_urls env post s4 of
             (Inl e', s5) \<Rightarrow> (Inl e', s5)
           | (Inr es', s5) \<Rightarrow> (Inr ((url, []) # es'), s5))"
    using assms(2,6) page by simp
  then have loop: "scrape_urls env (pre @ url # post) s =
           (case scrape_urls env post s4 of
              (Inl e', s5) \<Rightarrow> (Inl e', s5)
            | (Inr es', s5) \<Rightarrow> (Inr (es @ (url, []) # es'), s5))"
    using assms(1) by (simp add: scrape_urls_append split: prod.splits sum.splits)
  have "fst (scrape_page env url' t) = Inr content"
    if "fst (requests_get env url' 5 (world t)) = Inr res'" and "raise_for_status env res' = None"
      and "extract_text env res' = Inr content"
  proof -
    from that have "scrape_page_try env url' t =
        (Inr content, t\<lparr>world := snd (requests_get env url' 5 (world t)), fetched := fetched t @ [url']\<rparr>)"
      by (simp add: scrape_page_try_run)
    then show ?thesis
      by (simp add: scrape_page_success)
  qed
  with page loop show ?thesis
    by blast
qed

theorem failed_url_does_not_stop_the_loop_witness:
  "fst (scrape_urls (stub_env (Inr [])) [''http://a.example''] s0)
     = Inr [(''http://a.example'', ''alpha'')]
   \<and> fst (requests_get (stub_env (Inr [])) ''http://b.example'' 5 1) = Inr (404, ''not found'')
   \<and> raise_for_status (stub_env (Inr [])) (404, ''not found'')
       = Some (Raised Exception ''HTTPError'' ''client or server error'')
   \<and> isinstance_Exception (Raised Exception ''HTTPError'' ''client or server error'')
   \<and> fst (scrape_urls (stub_env (Inr []))
            [''http://a.example'', ''http://b.example'', ''http://c.example''] s0)
       = Inr [(''http://a.example'', ''alpha''), (''http://b.example'', []),
              (''http://c.example'', ''gamma'')]
   \<and> fst (requests_get (stub_env (Inr [])) ''http://moved.example'' 5 (world s0))
       = Inr (300, ''choices'')
   \<and> raise_for_status (stub_env (Inr [])) (300, ''choices'') = None
   \<and> fst (scrape_page (stub_env (Inr [])) ''http://moved.example'' s0) = Inr ''choices''"
proof -
  let ?env = "stub_env (Inr [])"
  let ?e = "Raised Exception ''HTTPError'' ''client or server error''"
  let ?s1 = "\<lparr>world = 1, stdout = [Print (header_line ''http://a.example''), Print ''alpha''],
              provider_calls = [], fetched = [''http://a.example''], spawned = []\<rparr> :: nat state"
  let ?s2 = "?s1\<lparr>stdout := stdout ?s1 @ [Print (header_line ''http://b.example'')]\<rparr>"
  let ?s3 = "?s2\<lparr>world := 2, fetched := [''http://a.example'', ''http://b.example''],
                 stdout := stdout ?s2 @ [Print (failure_line ''http://b.example'' ?e)]\<rparr>"
  let ?s4 = "?s3\<lparr>stdout := stdout ?s3 @ [Print []]\<rparr>"
  have h1: "scrape_urls ?env [''http://a.example''] s0 = (Inr [(''http://a.example'', ''alpha'')], ?s1)"
    by (simp add: stub_simps)
  have h2: "print ?env (Print (header_line ''http://b.example'')) ?s1 = (None, ?s2)"
    by (simp add: stub_simps)
  have h3: "fst (requests_get ?env ''http://b.example'' 5 (world ?s2)) = Inl ?e
         \<or> (\<exists>res. fst (requests_get ?env ''http://b.example'' 5 (world ?s2)) = Inr res
               \<and> (raise_for_status ?env res = Some ?e
                    \<or> raise_for_status ?env res = None \<and> extract_text ?env res = Inl ?e))"
    by (simp add: stub_simps)
  have h4: "isinstance_Exception ?e"
    by simp
  have h5: "print ?env (Print (failure_line ''http://b.example'' ?e))
           (?s2\<lparr>world := snd (requests_get ?env ''http://b.example'' 5 (world ?s2)),
                fetched := fetched ?s2 @ [''http://b.example'']\<rparr>) = (None, ?s3)"
    by (simp add: stub_simps)
  have h6: "print ?env (Print []) ?s3 = (None, ?s4)"
    by (simp add: stub_simps)
  have tail: "fst (scrape_urls ?env [''http://c.example''] ?s4) = Inr [(''http://c.example'', ''gamma'')]"
    by (simp add: stub_simps)
  have moved: "fst (requests_get ?env ''http://moved.example'' 5 (world s0)) = Inr (300, ''choices'')
      \<and> raise_for_status ?env (300, ''choices'') = None
      \<and> extract_text ?env (300, ''choices'') = Inr ''choices''"
    by (simp add: stub_simps)
  have b: "fst (requests_get ?env ''http://b.example'' 5 1) = Inr (404, ''not found'')
      \<and> raise_for_status ?env (404, ''not found'') = Some ?e"
    by (simp add: stub_simps)
  from failed_url_does_not_stop_the_loop
         [OF h1 h2 h3 h4 h5 h6, of "[''http://c.example'']" "''http://moved.example''" s0
            "(300, ''choices'')" "''choices''"]
    h1 tail moved b
  show ?thesis
    by (cases "scrape_urls ?env [''http://c.example''] ?s4") (simp split: sum.splits)
qed

text \<open>
  C7, as stated, fails: nothing in the main block catches what leaves \<open>scrape_page\<close>.
  Search returns three URLs; the fetch of the second is left by a KeyboardInterrupt,
  which \<^verbatim>\<open>except Exception\<close> does not match; the run ends there, with the content of
  the first URL as its only entry and the third URL never fetched.
\<close>

theorem interrupted_run_has_fewer_entries:
  "fst (duckduckgo_search
          (stub_env (Inr [[''href'' \<mapsto> ''http://a.example''], [''href'' \<mapsto> ''http://stop.example''],
                          [''href'' \<mapsto> ''http://c.example'']])) ''cats'' 3 s0)
     = Inr [''http://a.example'', ''http://stop.example'', ''http://c.example'']
   \<and> fst (scrape_main
          (stub_env (Inr [[''href'' \<mapsto> ''http://a.example''], [''href'' \<mapsto> ''http://stop.example''],
                          [''href'' \<mapsto> ''http://c.example'']])) s0)
       = Inl (Raised BaseException ''KeyboardInterrupt'' [])
   \<and> fetched (snd (scrape_main
          (stub_env (Inr [[''href'' \<mapsto> ''http://a.example''], [''href'' \<mapsto> ''http://stop.example''],
                          [''href'' \<mapsto> ''http://c.example'']])) s0))
       = [''http://a.example'', ''http://stop.example'']
   \<and> stdout (snd (scrape_main
          (stub_env (Inr [[''href'' \<mapsto> ''http://a.example''], [''href'' \<mapsto> ''http://stop.example''],
                          [''href'' \<mapsto> ''http://c.example'']])) s0))
       = [Print_list ''Found URLs: '' [''http://a.example'', ''http://stop.example'', ''http://c.example''],
          Print (header_line ''http://a.example''), Print ''alpha'',
          Print (header_line ''http://stop.example'')]"
  by (simp add: stub_simps)

text \<open>
  C7, amended. When Search has returned the URLs \<open>urls\<close>, the fetch and parse
  collaborators raise instances of \<^verbatim>\<open>Exception\<close> only and every \<^verbatim>\<open>print\<close> returns, the
  scrape pipeline runs to its end and its output has exactly one entry per URL, in
  Search's order: the URLs of the entries are \<open>urls\<close>, each URL was fetched once and in
  that order, and what was printed after the list of URLs is, entry by entry, the
  header of the URL, at most one failure line, and the content.
\<close>

theorem scrape_main_one_entry_per_url:
  assumes "input env ''Enter search query: '' (world s) = (Inr query, w0)"
    and "duckduckgo_search env query 3 (s\<lparr>world := w0\<rparr>) = (Inr urls, s1)"
    and "\<And>url w e. url \<in> set urls \<Longrightarrow> fst (requests_get env url 5 w) = Inl e
           \<Longrightarrow> isinstance_Exception e"
    and "\<And>res e. raise_for_status env res = Some e \<Longrightarrow> isinstance_Exception e"
    and "\<And>res e. response_text env res = Inl e \<Longrightarrow> isinstance_Exception e"
    and "\<And>markup e. BeautifulSoup env markup ''html.parser'' = Inl e \<Longrightarrow> isinstance_Exception e"
    and "\<And>soup e. find_all env soup ''p'' = Inl e \<Longrightarrow> isinstance_Exception e"
    and "\<And>p e. get_text env p = Inl e \<Longrightarrow> isinstance_Exception e"
    and "\<And>x w. fst (builtin_print env x w) = None"
  shows "\<exists>entries s'.
           scrape_main env s = (Inr entries, s')
           \<and> map fst entries = urls \<and> fetched s' = fetched s1 @ urls
           \<and> (\<exists>diags. length diags = length urls \<and> (\<forall>d\<in>set diags. length d \<le> 1) \<and>
                stdout s' = stdout s1 @ Print_list ''Found URLs: '' urls #
                  concat (map (\<lambda>((u, c), d). Print (header_line u) # d @ [Print c])
                            (zip entries diags)))"
proof -
  have "fst (print env (Print_list ''Found URLs: '' urls) s1) = None"
    by (simp add: print_fst assms(9))
  then obtain s2 where found: "print env (Print_list ''Found URLs: '' urls) s1 = (None, s2)"
    by (cases "print env (Print_list ''Found URLs: '' urls) s1") simp
  have main: "scrape_main env s = scrape_urls env urls s2"
    using scrape_main_run [OF assms(1,2)] found by simp
  have "\<exists>entries s'. scrape_urls env urls s2 = (Inr entries, s')"
  proof (rule scrape_urls_returns)
    fix url s0 e s1'
    assume u: "url \<in> set urls" and t: "scrape_page_try env url s0 = (Inl e, s1')"
    show "isinstance_Exception e"
      using assms(3) [OF u] assms(4-8) t by (rule scrape_page_try_only_Exception)
  next
    fix x w
    show "fst (builtin_print env x w) = None"
      by (rule assms(9))
  qed
  then obtain entries s' where run: "scrape_urls env urls s2 = (Inr entries, s')"
    by blast
  from scrape_urls_Inr [OF run] print_returns [OF found] main run
  show ?thesis
    by simp
qed

theorem scrape_main_one_entry_per_url_witness:
  "input (stub_env (Inr (three_results ''href''))) ''Enter search query: '' (world s0) = (Inr ''cats'', 0)
   \<and> fst (duckduckgo_search (stub_env (Inr (three_results ''href''))) ''cats'' 3 (s0\<lparr>world := 0\<rparr>))
       = Inr [''http://a.example'', ''http://b.example'', ''http://c.example'']
   \<and> (\<exists>entries s'. scrape_main (stub_env (Inr (three_results ''href''))) s0 = (Inr entries, s')
         \<and> map fst entries = [''http://a.example'', ''http://b.example'', ''http://c.example''])
   \<and> fst (scrape_main (stub_env (Inr (three_results ''href''))) s0)
       = Inr [(''http://a.example'', ''alpha''), (''http://b.example'', []),
              (''http://c.example'', ''gamma'')]"
proof -
  let ?env = "stub_env (Inr (three_results ''href''))"
  let ?urls = "[''http://a.example'', ''http://b.example'', ''http://c.example'']"
  have h1: "input ?env ''Enter search query: '' (world s0) = (Inr ''cats'', 0)"
    by (simp add: stub_env_def s0_def)
  obtain s1 where h2: "duckduckgo_search ?env ''cats'' 3 (s0\<lparr>world := 0\<rparr>) = (Inr ?urls, s1)"
    by (simp add: stub_simps)
  have h3: "\<And>url w e. url \<in> set ?urls \<Longrightarrow> fst (requests_get ?env url 5 w) = Inl e
           \<Longrightarrow> isinstance_Exception e"
    by (auto simp: stub_simps)
  have h4: "\<And>res e. raise_for_status ?env res = Some e \<Longrightarrow> isinstance_Exception e"
    by (auto simp: stub_simps split: if_splits)
  have h5: "\<And>res e. response_text ?env res = Inl e \<Longrightarrow> isinstance_Exception e"
    by (auto simp: stub_simps)
  have h6: "\<And>markup e. BeautifulSoup ?env markup ''html.parser'' = Inl e \<Longrightarrow> isinstance_Exception e"
    by (simp add: stub_simps)
  have h7: "\<And>soup e. find_all ?env soup ''p'' = Inl e \<Longrightarrow> isinstance_Exception e"
    by (simp add: stub_simps)
  have h8: "\<And>p e. get_text ?env p = Inl e \<Longrightarrow> isinstance_Exception e"
    by (simp add: stub_simps)
  have run: "fst (scrape_main ?env s0)
       = Inr [(''http://a.example'', ''alpha''), (''http://b.example'', []),
              (''http://c.example'', ''gamma'')]"
    by (simp add: stub_simps)
  have h9: "\<And>x w. fst (builtin_print ?env x w) = None"
    by (simp add: stub_simps)
  have "\<exists>entries s'.
           scrape_main ?env s0 = (Inr entries, s')
           \<and> map fst entries = ?urls \<and> fetched s' = fetched s1 @ ?urls
           \<and> (\<exists>diags. length diags = length ?urls \<and> (\<forall>d\<in>set diags. length d \<le> 1) \<and>
                stdout s' = stdout s1 @ Print_list ''Found URLs: '' ?urls #
                  concat (map (\<lambda>((u, c), d). Print (header_line u) # d @ [Print c])
                            (zip entries diags)))"
    by (rule scrape_main_one_entry_per_url [OF h1 h2]) (fact h3 h4 h5 h6 h7 h8 h9)+
  with h1 h2 run show ?thesis
    by auto
qed

text \<open>
  C9, as stated, fails: \<^verbatim>\<open>except Exception\<close> does not match an exception that is not
  an instance of \<^verbatim>\<open>Exception\<close>. When \<^verbatim>\<open>requests.get\<close> is left by a KeyboardInterrupt,
  \<open>scrape_page\<close> returns nothing and the exception reaches its caller.
\<close>

theorem scrape_page_propagates_KeyboardInterrupt:
  "fst (scrape_page (stub_env (Inr [])) ''http://stop.example'' s0)
     = Inl (Raised BaseException ''KeyboardInterrupt'' [])"
  by (simp add: stub_simps)

text \<open>
  C9, amended. Every collaborator call of the \<^verbatim>\<open>try\<close> block is covered by the handler:
  when each of them returns or raises an instance of \<^verbatim>\<open>Exception\<close>, and the \<^verbatim>\<open>print\<close> of
  the handler, which stands outside the \<^verbatim>\<open>try\<close>, returns, \<open>scrape_page\<close> returns a string
  and propagates nothing, and the string is empty whenever something was raised.
  (Lemma \<open>scrape_page_handler_raises\<close> is the other case: what the handler's \<^verbatim>\<open>print\<close>
  raises leaves \<open>scrape_page\<close>.)
\<close>

theorem scrape_page_returns_when_only_Exceptions:
  assumes "\<And>e. fst (requests_get env url 5 (world s)) = Inl e \<Longrightarrow> isinstance_Exception e"
    and "\<And>res e. raise_for_status env res = Some e \<Longrightarrow> isinstance_Exception e"
    and "\<And>res e. response_text env res = Inl e \<Longrightarrow> isinstance_Exception e"
    and "\<And>markup e. BeautifulSoup env markup ''html.parser'' = Inl e \<Longrightarrow> isinstance_Exception e"
    and "\<And>soup e. find_all env soup ''p'' = Inl e \<Longrightarrow> isinstance_Exception e"
    and "\<And>p e. get_text env p = Inl e \<Longrightarrow> isinstance_Exception e"
    and "\<And>e w. fst (builtin_print env (Print (failure_line url e)) w) = None"
  shows "\<exists>content s'. scrape_page env url s = (Inr content, s')
           \<and> (\<forall>e s1. scrape_page_try env url s = (Inl e, s1) \<longrightarrow> content = [])"
proof (rule scrape_page_returns)
  fix e s1
  assume raised: "scrape_page_try env url s = (Inl e, s1)"
  show "isinstance_Exception e"
    using scrape_page_try_Inl_D [OF raised] assms(1-6)
    by (blast dest: extract_text_Inl_D)
next
  fix e w
  show "fst (builtin_print env (Print (failure_line url e)) w) = None"
    by (rule assms(7))
qed

theorem scrape_page_returns_when_only_Exceptions_witness:
  "fst (requests_get (stub_env (Inr [])) ''http://slow.example'' 5 (world s0))
     = Inl (Raised Exception ''Timeout'' ''timed out'')
   \<and> isinstance_Exception (Raised Exception ''Timeout'' ''timed out'')
   \<and> fst (print (stub_env (Inr []))
            (Print (failure_line ''http://slow.example'' (Raised Exception ''Timeout'' ''timed out'')))
            (snd (scrape_page_try (stub_env (Inr [])) ''http://slow.example'' s0))) = None
   \<and> (\<exists>content s'. scrape_page (stub_env (Inr [])) ''http://slow.example'' s0 = (Inr content, s'))
   \<and> fst (scrape_page (stub_env (Inr [])) ''http://slow.example'' s0) = Inr []"
proof -
  let ?env = "stub_env (Inr [])"
  have h1: "\<And>e. fst (requests_get ?env ''http://slow.example'' 5 (world s0)) = Inl e
              \<Longrightarrow> isinstance_Exception e"
    by (auto simp: stub_simps)
  have h2: "\<And>res e. raise_for_status ?env res = Some e \<Longrightarrow> isinstance_Exception e"
    by (auto simp: stub_simps split: if_splits)
  have h3: "\<And>res e. response_text ?env res = Inl e \<Longrightarrow> isinstance_Exception e"
    by (auto simp: stub_simps)
  have h4: "\<And>markup e. BeautifulSoup ?env markup ''html.parser'' = Inl e \<Longrightarrow> isinstance_Exception e"
    by (simp add: stub_simps)
  have h5: "\<And>soup e. find_all ?env soup ''p'' = Inl e \<Longrightarrow> isinstance_Exception e"
    by (simp add: stub_simps)
  have h6: "\<And>p e. get_text ?env p = Inl e \<Longrightarrow> isinstance_Exception e"
    by (simp add: stub_simps)
  have h7: "\<And>e w. fst (builtin_print ?env (Print (failure_line ''http://slow.example'' e)) w) = None"
    by (simp add: stub_simps)
  have "\<exists>content s'. scrape_page ?env ''http://slow.example'' s0 = (Inr content, s')
           \<and> (\<forall>e s1. scrape_page_try ?env ''http://slow.example'' s0 = (Inl e, s1) \<longrightarrow> content = [])"
    by (rule scrape_page_returns_when_only_Exceptions) (fact h1 h2 h3 h4 h5 h6 h7)+
  then show ?thesis
    by (auto simp: stub_simps)
qed

text \<open>
  C10. A page fetched with success in which \<^verbatim>\<open>find_all("p")\<close> finds nothing gives the
  empty string (the join of no texts), which is also what the handler returns for a
  caught failure: the returned values of the two calls are equal.
\<close>

theorem empty_page_indistinguishable_from_failure:
  assumes "requests_get env url 5 (world s) = (Inr res, w1)"
    and "raise_for_status env res = None"
    and "response_text env res = Inr markup"
    and "BeautifulSoup env markup ''html.parser'' = Inr soup"
    and "find_all env soup ''p'' = Inr []"
    and "scrape_page_try env' url' s' = (Inl e, s1')"
    and "isinstance_Exception e"
    and "fst (print env' (Print (failure_line url' e)) s1') = None"
  shows "fst (scrape_page env url s) = Inr []
       \<and> fst (scrape_page env' url' s') = Inr []
       \<and> fst (scrape_page env url s) = fst (scrape_page env' url' s')"
proof -
  have "extract_text env res = Inr []"
    using assms(3-5) by (rule extract_text_no_paragraphs)
  then have "fst (scrape_page_try env url s) = Inr []"
    using assms(1,2) by (simp add: scrape_page_try_def Let_def)
  then have ok: "fst (scrape_page env url s) = Inr []"
    by (cases "scrape_page_try env url s") (simp add: scrape_page_def)
  obtain s2' where "print env' (Print (failure_line url' e)) s1' = (None, s2')"
    using assms(8) by (cases "print env' (Print (failure_line url' e)) s1'") simp
  from scrape_page_caught [OF assms(6,7) this] have "fst (scrape_page env' url' s') = Inr []"
    by simp
  with ok show ?thesis by simp
qed

theorem empty_page_indistinguishable_from_failure_witness:
  "requests_get (stub_env (Inr [])) ''http://empty.example'' 5 (world s0) = (Inr (200, []), 1)
   \<and> raise_for_status (stub_env (Inr [])) (200, []) = None
   \<and> find_all (stub_env (Inr [])) [] ''p'' = Inr []
   \<and> fst (scrape_page_try (stub_env (Inr [])) ''http://slow.example'' s0)
       = Inl (Raised Exception ''Timeout'' ''timed out'')
   \<and> fst (scrape_page (stub_env (Inr [])) ''http://empty.example'' s0) = Inr []
   \<and> fst (scrape_page (stub_env (Inr [])) ''http://slow.example'' s0) = Inr []"
  using empty_page_indistinguishable_from_failure
    [of "stub_env (Inr [])" "''http://empty.example''" s0 "(200, [])" 1 "[]" "[]"
        "stub_env (Inr [])" "''http://slow.example''" s0
        "Raised Exception ''Timeout'' ''timed out''"
        "snd (scrape_page_try (stub_env (Inr [])) ''http://slow.example'' s0)"]
  by (simp add: stub_simps)

text \<open>
  C8. Against a deterministic provider, one whose client and whose answer to the query
  and limit do not depend on the state of the world, a second call of
  \<open>duckduckgo_search\<close> right after the first gives the same result, the URLs in the
  same order: the function adds no state of its own. In the witness the world does
  change between the two calls.
\<close>

theorem search_twice_same_urls:
  assumes "\<And>w w'. fst (DDGS env w) = fst (DDGS env w')"
    and "\<And>d w w'. fst (ddgs_text env d query n w) = fst (ddgs_text env d query n w')"
  shows "fst (duckduckgo_search env query n (snd (duckduckgo_search env query n s)))
           = fst (duckduckgo_search env query n s)"
proof -
  let ?s1 = "snd (duckduckgo_search env query n s)"
  have client: "fst (DDGS env (world ?s1)) = fst (DDGS env (world s))"
    by (rule assms(1))
  have answer: "\<And>d. fst (ddgs_text env d query n (snd (DDGS env (world ?s1))))
                    = fst (ddgs_text env d query n (snd (DDGS env (world s))))"
    by (rule assms(2))
  show ?thesis
    by (cases "fst (DDGS env (world s))")
       (simp_all add: duckduckgo_search_fst [of env query n ?s1]
          duckduckgo_search_fst [of env query n s] client answer)
qed

theorem search_twice_same_urls_witness:
  "(\<forall>w w'. fst (DDGS (stub_env (Inr (three_results ''href''))) w)
              = fst (DDGS (stub_env (Inr (three_results ''href''))) w'))
   \<and> (\<forall>d w w'. fst (ddgs_text (stub_env (Inr (three_results ''href''))) d ''cats'' 3 w)
              = fst (ddgs_text (stub_env (Inr (three_results ''href''))) d ''cats'' 3 w'))
   \<and> world (snd (duckduckgo_search (stub_env (Inr (three_results ''href''))) ''cats'' 3 s0)) = 1
   \<and> fst (duckduckgo_search (stub_env (Inr (three_results ''href''))) ''cats'' 3 s0)
       = Inr [''http://a.example'', ''http://b.example'', ''http://c.example'']
   \<and> fst (duckduckgo_search (stub_env (Inr (three_results ''href''))) ''cats'' 3
            (snd (duckduckgo_search (stub_env (Inr (three_results ''href''))) ''cats'' 3 s0)))
       = Inr [''http://a.example'', ''http://b.example'', ''http://c.example'']"
proof -
  let ?env = "stub_env (Inr (three_results ''href''))"
  have h1: "\<And>w w'. fst (DDGS ?env w) = fst (DDGS ?env w')"
    by (simp add: stub_env_def)
  have h2: "\<And>d w w'. fst (ddgs_text ?env d ''cats'' 3 w) = fst (ddgs_text ?env d ''cats'' 3 w')"
    by (simp add: stub_env_def)
  have first: "fst (duckduckgo_search ?env ''cats'' 3 s0)
                 = Inr [''http://a.example'', ''http://b.example'', ''http://c.example'']"
    by (simp add: stub_simps)
  have w: "world (snd (duckduckgo_search ?env ''cats'' 3 s0)) = 1"
    by (simp add: stub_simps)
  from search_twice_same_urls [of ?env "''cats''" 3 s0, OF h1 h2] first w h1 h2
  show ?thesis by simp
qed

text \<open>
  C4, as stated, fails: \<open>duckduckgo_search\<close> has no check on \<^verbatim>\<open>max_results\<close>. With the
  limit 0 the provider is called with 0, and what it answers is returned.
\<close>

theorem limit_zero_reaches_provider:
  "provider_calls (snd (duckduckgo_search (stub_env (Inr (three_results ''href''))) ''cats'' 0 s0))
     = [(''cats'', 0)]
   \<and> fst (duckduckgo_search (stub_env (Inr (three_results ''href''))) ''cats'' 0 s0)
       = Inr [''http://a.example'', ''http://b.example'', ''http://c.example'']"
  by (simp add: stub_simps)

text \<open>
  C4, amended. With the limit 0 the Search step neither rejects the limit nor answers
  by itself: once the client is constructed, the provider is called exactly once more,
  with the query and \<^verbatim>\<open>max_results = 0\<close>, and the result is the provider's answer, its
  exception or the \<^verbatim>\<open>'href'\<close> of each of its results.
\<close>

theorem limit_zero_is_forwarded:
  assumes "DDGS env (world s) = (Inr d, w1)"
  shows "provider_calls (snd (duckduckgo_search env query 0 s)) = provider_calls s @ [(query, 0)]
       \<and> fst (duckduckgo_search env query 0 s) =
           (case fst (ddgs_text env d query 0 w1) of
              Inl e \<Rightarrow> Inl e
            | Inr results \<Rightarrow> subscript_each ''href'' results)"
  by (simp add: duckduckgo_search_run [OF assms])

theorem limit_zero_is_forwarded_witness:
  "DDGS (stub_env (Inr [])) (world s0) = (Inr (), 0)
   \<and> provider_calls (snd (duckduckgo_search (stub_env (Inr [])) ''cats'' 0 s0)) = [(''cats'', 0)]
   \<and> fst (duckduckgo_search (stub_env (Inr [])) ''cats'' 0 s0) = Inr []"
  using limit_zero_is_forwarded [of "stub_env (Inr [])" s0 "()" 0 "''cats''"]
  by (simp add: stub_simps)

text \<open>
  C5. When both \<^verbatim>\<open>print\<close> calls return and the provider, asked for 3 results, returns
  results that all carry a \<^verbatim>\<open>'url'\<close>, the notifier calls \<^verbatim>\<open>subprocess.run\<close> with
  \<^verbatim>\<open>notify-send\<close>, the title \<^verbatim>\<open>TinyLlama\<close> and the message made of the fixed text, the
  query between apostrophes and the count of the URLs; the run ends as that call ends
  (with its exception when it raises), in the world that call leaves. The count is
  written as the decimal numeral of the number of URLs: digits only, no leading zero,
  denoting that number. For the default query \<^verbatim>\<open>latest tech news\<close>, the one the main
  block uses, and three URLs the message is
  \<^verbatim>\<open>Search done for 'latest tech news', found 3 results.\<close>
\<close>

theorem notifier_message_text:
  assumes "print nenv (Print (''Running search for: '' @ query)) s = (None, s1)"
    and "search nenv query 3 (world s1) = (Inr results, w2)"
    and "subscript_each ''url'' results = Inr urls"
    and "print nenv (Print_list ''Found URLs: '' urls)
           (s1\<lparr>world := w2, provider_calls := provider_calls s1 @ [(query, 3)]\<rparr>) = (None, s3)"
    and "subprocess_run nenv
           [''notify-send'', ''TinyLlama'',
            ''Search done for '' @ [CHR 0x27] @ query @ [CHR 0x27] @ '', found ''
              @ str_nat (length urls) @ '' results.'']
           (world s3) = (r, w4)"
  shows "search_and_notify nenv query s =
           ((case r of Some e \<Rightarrow> Inl e | None \<Rightarrow> Inr ()),
            s3\<lparr>world := w4,
               spawned := spawned s3 @
                 [[''notify-send'', ''TinyLlama'',
                   ''Search done for '' @ [CHR 0x27] @ query @ [CHR 0x27] @ '', found ''
                     @ str_nat (length urls) @ '' results.'']]\<rparr>)
       \<and> spawned s3 = spawned s
       \<and> length urls = length results
       \<and> nat_of_str (str_nat (length urls)) = length urls
       \<and> set (str_nat (length urls)) \<subseteq> set ''0123456789''
       \<and> (length urls \<noteq> 0 \<longrightarrow> hd (str_nat (length urls)) \<noteq> CHR ''0'')
       \<and> (query = ''latest tech news'' \<and> length urls = 3 \<longrightarrow>
            notify_main nenv s = search_and_notify nenv query s
            \<and> ''Search done for '' @ [CHR 0x27] @ query @ [CHR 0x27] @ '', found ''
                 @ str_nat (length urls) @ '' results.''
               = ''Search done for 'latest tech news', found 3 results.'')"
proof -
  have sink: "subprocess_run nenv [''notify-send'', ''TinyLlama'', notify_message query urls]
                (world s3) = (r, w4)"
    using assms(5) by (simp add: notify_message_def)
  have run: "search_and_notify nenv query s =
           ((case r of Some e \<Rightarrow> Inl e | None \<Rightarrow> Inr ()),
            s3\<lparr>world := w4,
               spawned := spawned s3 @
                 [[''notify-send'', ''TinyLlama'',
                   ''Search done for '' @ [CHR 0x27] @ query @ [CHR 0x27] @ '', found ''
                     @ str_nat (length urls) @ '' results.'']]\<rparr>)"
    using search_and_notify_run [OF assms(1-4) sink] by (simp add: notify_message_def)
  have log: "spawned s3 = spawned s"
    using print_returns [OF assms(1)] print_returns [OF assms(4)] by simp
  have scenario: "''Search done for '' @ [CHR 0x27] @ query @ [CHR 0x27] @ '', found ''
                 @ str_nat (length urls) @ '' results.''
               = ''Search done for 'latest tech news', found 3 results.''"
    if "query = ''latest tech news''" and "length urls = 3"
    using that by (simp add: str_nat_3)
  show ?thesis
    using run log subscript_each_length [OF assms(3)] nat_of_str_str_nat [of "length urls"]
      str_nat_digits [of "length urls"] str_nat_no_leading_zero [of "length urls"] scenario
    by (simp add: notify_main_def)
qed

theorem notifier_message_text_witness:
  "print (stub_notify (Inr (three_results ''url''))) (Print ''Running search for: latest tech news'') s0
     = (None, s0\<lparr>stdout := [Print ''Running search for: latest tech news'']\<rparr>)
   \<and> search (stub_notify (Inr (three_results ''url''))) ''latest tech news'' 3 0
       = (Inr (three_results ''url''), 1)
   \<and> subscript_each ''url'' (three_results ''url'')
       = Inr [''http://a.example'', ''http://b.example'', ''http://c.example'']
   \<and> subprocess_run (stub_notify (Inr (three_results ''url'')))
         [''notify-send'', ''TinyLlama'', ''Search done for 'latest tech news', found 3 results.''] 1
       = (None, 2)
   \<and> notify_main (stub_notify (Inr (three_results ''url''))) s0
       = (Inr (),
          \<lparr>world = 2,
             stdout = [Print ''Running search for: latest tech news'',
                       Print_list ''Found URLs: ''
                         [''http://a.example'', ''http://b.example'', ''http://c.example'']],
             provider_calls = [(''latest tech news'', 3)],
             fetched = [],
             spawned = [[''notify-send'', ''TinyLlama'',
                         ''Search done for 'latest tech news', found 3 results.'']]\<rparr>)"
proof -
  let ?nenv = "stub_notify (Inr (three_results ''url''))"
  let ?q = "''latest tech news''"
  let ?urls = "[''http://a.example'', ''http://b.example'', ''http://c.example'']"
  let ?s1 = "s0\<lparr>stdout := [Print ''Running search for: latest tech news'']\<rparr>"
  let ?s3 = "\<lparr>world = 1,
             stdout = [Print ''Running search for: latest tech news'', Print_list ''Found URLs: '' ?urls],
             provider_calls = [(''latest tech news'', 3)], fetched = [], spawned = []\<rparr> :: nat state"
  have h1: "print ?nenv (Print (''Running search for: '' @ ?q)) s0 = (None, ?s1)"
    by (simp add: stub_notify_def print_def s0_def)
  have h2: "search ?nenv ?q 3 (world ?s1) = (Inr (three_results ''url''), 1)"
    by (simp add: stub_notify_def s0_def)
  have h3: "subscript_each ''url'' (three_results ''url'') = Inr ?urls"
    by (simp add: three_results_def)
  have h4: "print ?nenv (Print_list ''Found URLs: '' ?urls)
           (?s1\<lparr>world := 1, provider_calls := provider_calls ?s1 @ [(?q, 3)]\<rparr>) = (None, ?s3)"
    by (simp add: stub_notify_def print_def s0_def)
  have h5: "subprocess_run ?nenv
           [''notify-send'', ''TinyLlama'',
            ''Search done for '' @ [CHR 0x27] @ ?q @ [CHR 0x27] @ '', found ''
              @ str_nat (length ?urls) @ '' results.'']
           (world ?s3) = (None, 2)"
    by (simp add: stub_notify_def)
  have sink: "subprocess_run ?nenv
         [''notify-send'', ''TinyLlama'', ''Search done for 'latest tech news', found 3 results.''] 1
       = (None, 2)"
    by (simp add: stub_notify_def)
  from notifier_message_text [OF h1 h2 h3 h4 h5] h1 h2 h3 sink
  show ?thesis
    by (simp add: s0_def three_results_def str_nat_digit digit_def)
qed

text \<open>
  C6. When Search returns no URL, the scrape pipeline has no entry and fetches nothing:
  it ends normally with the empty list of entries, unless the \<^verbatim>\<open>print\<close> of the empty
  list of URLs raises, and then it ends with that exception, still without an entry.
  In the notifier, when Search returns no result and both \<^verbatim>\<open>print\<close> calls return, the
  message handed to \<^verbatim>\<open>notify-send\<close> reports 0 results.
\<close>

theorem zero_results_zero_entries:
  "(input env ''Enter search query: '' (world s) = (Inr query, w0)
      \<and> fst (duckduckgo_search env query 3 (s\<lparr>world := w0\<rparr>)) = Inr []
    \<longrightarrow> fst (scrape_main env s) =
          (case fst (print env (Print_list ''Found URLs: '' [])
                       (snd (duckduckgo_search env query 3 (s\<lparr>world := w0\<rparr>)))) of
             Some e \<Rightarrow> Inl e
           | None \<Rightarrow> Inr [])
        \<and> fetched (snd (scrape_main env s)) = fetched s)
   \<and> (print nenv (Print (''Running search for: '' @ query')) s' = (None, s1')
      \<and> fst (search nenv query' 3 (world s1')) = Inr []
      \<and> fst (print nenv (Print_list ''Found URLs: '' [])
               (s1'\<lparr>world := snd (search nenv query' 3 (world s1')),
                    provider_calls := provider_calls s1' @ [(query', 3)]\<rparr>)) = None
    \<longrightarrow> spawned (snd (search_and_notify nenv query' s'))
          = spawned s' @ [[''notify-send'', ''TinyLlama'',
                          ''Search done for '' @ [CHR 0x27] @ query' @ [CHR 0x27]
                            @ '', found 0 results.'']])"
proof -
  have notifier: "spawned (snd (search_and_notify nenv query' s'))
          = spawned s' @ [[''notify-send'', ''TinyLlama'',
                          ''Search done for '' @ [CHR 0x27] @ query' @ [CHR 0x27]
                            @ '', found 0 results.'']]"
    if p1: "print nenv (Print (''Running search for: '' @ query')) s' = (None, s1')"
      and z: "fst (search nenv query' 3 (world s1')) = Inr []"
      and p2: "fst (print nenv (Print_list ''Found URLs: '' [])
               (s1'\<lparr>world := snd (search nenv query' 3 (world s1')),
                    provider_calls := provider_calls s1' @ [(query', 3)]\<rparr>)) = None"
  proof -
    let ?t = "s1'\<lparr>world := snd (search nenv query' 3 (world s1')),
                    provider_calls := provider_calls s1' @ [(query', 3)]\<rparr>"
    have srch: "search nenv query' 3 (world s1') = (Inr [], snd (search nenv query' 3 (world s1')))"
      using z by (cases "search nenv query' 3 (world s1')") simp
    obtain s3 where found: "print nenv (Print_list ''Found URLs: '' []) ?t = (None, s3)"
      using p2 by (cases "print nenv (Print_list ''Found URLs: '' []) ?t") simp
    obtain r w4 where sink:
      "subprocess_run nenv [''notify-send'', ''TinyLlama'', notify_message query' []] (world s3) = (r, w4)"
      by (cases "subprocess_run nenv [''notify-send'', ''TinyLlama'', notify_message query' []] (world s3)")
    have "subscript_each ''url'' [] = Inr []"
      by simp
    from search_and_notify_run [OF p1 srch this found sink]
      print_returns [OF p1] print_returns [OF found]
    show ?thesis
      by (simp add: notify_message_def str_nat_0)
  qed
  from scrape_main_no_urls [of env s query w0] notifier show ?thesis
    by blast
qed

theorem zero_results_zero_entries_witness:
  "input (stub_env (Inr [])) ''Enter search query: '' (world s0) = (Inr ''cats'', 0)
   \<and> fst (duckduckgo_search (stub_env (Inr [])) ''cats'' 3 (s0\<lparr>world := 0\<rparr>)) = Inr []
   \<and> fst (scrape_main (stub_env (Inr [])) s0) = Inr []
   \<and> fetched (snd (scrape_main (stub_env (Inr [])) s0)) = []
   \<and> fst (print (stub_notify (Inr [])) (Print ''Running search for: cats'') s0) = None
   \<and> fst (search (stub_notify (Inr [])) ''cats'' 3 (world s0)) = Inr []
   \<and> spawned (snd (search_and_notify (stub_notify (Inr [])) ''cats'' s0))
       = [[''notify-send'', ''TinyLlama'', ''Search done for 'cats', found 0 results.'']]"
proof -
  let ?s1 = "s0\<lparr>stdout := [Print ''Running search for: cats'']\<rparr>"
  have h1: "input (stub_env (Inr [])) ''Enter search query: '' (world s0) = (Inr ''cats'', 0)"
    by (simp add: stub_env_def s0_def)
  have h2: "fst (duckduckgo_search (stub_env (Inr [])) ''cats'' 3 (s0\<lparr>world := 0\<rparr>)) = Inr []"
    by (simp add: stub_env_def s0_def duckduckgo_search_def)
  have h3: "\<And>x t. fst (print (stub_env (Inr [])) x t) = None"
    by (simp add: stub_env_def print_def)
  have h4: "print (stub_notify (Inr [])) (Print (''Running search for: '' @ ''cats'')) s0 = (None, ?s1)"
    by (simp add: stub_notify_def print_def s0_def)
  have h5: "\<And>w. fst (search (stub_notify (Inr [])) ''cats'' 3 w) = Inr []"
    by (simp add: stub_notify_def)
  have h6: "\<And>x t. fst (print (stub_notify (Inr [])) x t) = None"
    by (simp add: stub_notify_def print_def)
  from zero_results_zero_entries
         [of "stub_env (Inr [])" s0 "''cats''" 0 "stub_notify (Inr [])" "''cats''" s0 ?s1]
       h1 h2 h3 h4 h5 h6
  show ?thesis
    by (simp add: s0_def)
qed

text \<open>
  C3, as stated, fails in its first half: neither \<open>duckduckgo_search\<close> nor one of its
  callers has a handler around the provider. With a provider that cannot be reached
  the exception leaves the Search step and ends the caller: the scrape pipeline prints
  and fetches nothing, the notifier sends no notification.
\<close>

theorem provider_failure_ends_both_pipelines:
  "fst (duckduckgo_search (stub_env (Inl unreachable)) ''cats'' 3 s0) = Inl unreachable
   \<and> fst (scrape_main (stub_env (Inl unreachable)) s0) = Inl unreachable
   \<and> fetched (snd (scrape_main (stub_env (Inl unreachable)) s0)) = []
   \<and> stdout (snd (scrape_main (stub_env (Inl unreachable)) s0)) = []
   \<and> fst (notify_main (stub_notify (Inl unreachable)) s0) = Inl unreachable
   \<and> spawned (snd (notify_main (stub_notify (Inl unreachable)) s0)) = []"
  by (simp add: stub_simps)

text \<open>
  C3, amended. When the provider raises, or returns a result without the key that is
  read (\<^verbatim>\<open>'href'\<close> in the scraper, \<^verbatim>\<open>'url'\<close> in the notifier, a KeyError), the Search
  step raises that exception to its caller, and the caller ends with it: the scrape
  pipeline before any page is fetched, the notifier (whose first \<^verbatim>\<open>print\<close> has returned)
  before any notification is sent. A provider result of no URLs is no error in either
  pipeline: the scrape pipeline ends normally with no entry, the \<^verbatim>\<open>print\<close> of the empty
  list of URLs being the only thing that can still raise, and the notifier, its two
  \<^verbatim>\<open>print\<close> calls having returned, ends normally once \<^verbatim>\<open>notify-send\<close> has run.
\<close>

theorem search_failure_reaches_the_caller:
  "(DDGS env (world s) = (Inr d, w1) \<and> fst (ddgs_text env d query n w1) = Inl e
      \<longrightarrow> fst (duckduckgo_search env query n s) = Inl e)
   \<and> (DDGS env (world s) = (Inr d, w1) \<and> fst (ddgs_text env d query n w1) = Inr results
        \<and> r \<in> set results \<and> r ''href'' = None
      \<longrightarrow> fst (duckduckgo_search env query n s) = Inl (KeyError ''href''))
   \<and> (input env ''Enter search query: '' (world s) = (Inr query, w0)
        \<and> fst (duckduckgo_search env query 3 (s\<lparr>world := w0\<rparr>)) = Inl e
      \<longrightarrow> fst (scrape_main env s) = Inl e \<and> fetched (snd (scrape_main env s)) = fetched s)
   \<and> (print nenv (Print (''Running search for: '' @ query)) t = (None, t1)
        \<and> fst (search nenv query 3 (world t1)) = Inl e
      \<longrightarrow> fst (search_and_notify nenv query t) = Inl e
          \<and> spawned (snd (search_and_notify nenv query t)) = spawned t)
   \<and> (print nenv (Print (''Running search for: '' @ query)) t = (None, t1)
        \<and> fst (search nenv query 3 (world t1)) = Inr results \<and> r \<in> set results \<and> r ''url'' = None
      \<longrightarrow> fst (search_and_notify nenv query t) = Inl (KeyError ''url'')
          \<and> spawned (snd (search_and_notify nenv query t)) = spawned t)
   \<and> (input env ''Enter search query: '' (world s) = (Inr query, w0)
        \<and> fst (duckduckgo_search env query 3 (s\<lparr>world := w0\<rparr>)) = Inr []
      \<longrightarrow> fst (scrape_main env s) =
            (case fst (print env (Print_list ''Found URLs: '' [])
                         (snd (duckduckgo_search env query 3 (s\<lparr>world := w0\<rparr>)))) of
               Some e' \<Rightarrow> Inl e'
             | None \<Rightarrow> Inr []))
   \<and> (print nenv (Print (''Running search for: '' @ query)) t = (None, t1)
        \<and> search nenv query 3 (world t1) = (Inr [], w2)
        \<and> print nenv (Print_list ''Found URLs: '' [])
             (t1\<lparr>world := w2, provider_calls := provider_calls t1 @ [(query, 3)]\<rparr>) = (None, t3)
        \<and> fst (subprocess_run nenv [''notify-send'', ''TinyLlama'', notify_message query []]
                 (world t3)) = None
      \<longrightarrow> fst (search_and_notify nenv query t) = Inr ())"
proof -
  have raises: "fst (duckduckgo_search env query n s) = Inl e"
    if "DDGS env (world s) = (Inr d, w1)" and "fst (ddgs_text env d query n w1) = Inl e"
    using that by (simp add: duckduckgo_search_run)
  have malformed: "fst (duckduckgo_search env query n s) = Inl (KeyError ''href'')"
    if "DDGS env (world s) = (Inr d, w1)" and "fst (ddgs_text env d query n w1) = Inr results"
      and "r \<in> set results" and "r ''href'' = None"
    using that by (simp add: duckduckgo_search_run subscript_each_missing)
  have scraper: "fst (scrape_main env s) = Inl e \<and> fetched (snd (scrape_main env s)) = fetched s"
    if i: "input env ''Enter search query: '' (world s) = (Inr query, w0)"
      and f: "fst (duckduckgo_search env query 3 (s\<lparr>world := w0\<rparr>)) = Inl e"
  proof -
    obtain x s1 where run: "duckduckgo_search env query 3 (s\<lparr>world := w0\<rparr>) = (x, s1)"
      by (cases "duckduckgo_search env query 3 (s\<lparr>world := w0\<rparr>)")
    from duckduckgo_search_effects [OF run] have "fetched s1 = fetched s"
      by simp
    with scrape_main_search_fails [OF i f] run show ?thesis
      by simp
  qed
  have notifier: "fst (search_and_notify nenv query t) = Inl (KeyError ''url'')
          \<and> spawned (snd (search_and_notify nenv query t)) = spawned t"
    if "print nenv (Print (''Running search for: '' @ query)) t = (None, t1)"
      and "fst (search nenv query 3 (world t1)) = Inr results" and "r \<in> set results"
      and "r ''url'' = None"
    using that
    by (intro search_and_notify_subscript_raises [of nenv query t t1 results])
       (simp_all add: subscript_each_missing)
  have empty_notifier: "fst (search_and_notify nenv query t) = Inr ()"
    if p1: "print nenv (Print (''Running search for: '' @ query)) t = (None, t1)"
      and z: "search nenv query 3 (world t1) = (Inr [], w2)"
      and p2: "print nenv (Print_list ''Found URLs: '' [])
             (t1\<lparr>world := w2, provider_calls := provider_calls t1 @ [(query, 3)]\<rparr>) = (None, t3)"
      and ok: "fst (subprocess_run nenv [''notify-send'', ''TinyLlama'', notify_message query []]
                 (world t3)) = None"
  proof -
    obtain w4 where sink:
      "subprocess_run nenv [''notify-send'', ''TinyLlama'', notify_message query []] (world t3)
         = (None, w4)"
      using ok
      by (cases "subprocess_run nenv [''notify-send'', ''TinyLlama'', notify_message query []] (world t3)")
         simp
    have "subscript_each ''url'' [] = Inr []"
      by simp
    from search_and_notify_run [OF p1 z this p2 sink] show ?thesis
      by simp
  qed
  from raises malformed scraper search_and_notify_search_raises [of nenv query t t1 e]
    notifier scrape_main_no_urls [of env s query w0] empty_notifier
  show ?thesis
    by blast
qed

theorem search_failure_reaches_the_caller_witness:
  "DDGS (stub_env (Inl unreachable)) (world s0) = (Inr (), 0)
   \<and> fst (ddgs_text (stub_env (Inl unreachable)) () ''cats'' 3 0) = Inl unreachable
   \<and> fst (duckduckgo_search (stub_env (Inl unreachable)) ''cats'' 3 s0) = Inl unreachable
   \<and> fst (scrape_main (stub_env (Inl unreachable)) s0) = Inl unreachable
   \<and> fst (search_and_notify (stub_notify (Inl unreachable)) ''cats'' s0) = Inl unreachable
   \<and> spawned (snd (search_and_notify (stub_notify (Inl unreachable)) ''cats'' s0)) = []
   \<and> fst (duckduckgo_search (stub_env (Inr [[''title'' \<mapsto> ''x'']])) ''cats'' 3 s0)
       = Inl (KeyError ''href'')
   \<and> fst (search_and_notify (stub_notify (Inr [[''title'' \<mapsto> ''x'']])) ''cats'' s0)
       = Inl (KeyError ''url'')
   \<and> fst (scrape_main (stub_env (Inr [])) s0) = Inr []
   \<and> fst (search_and_notify (stub_notify (Inr [])) ''cats'' s0) = Inr ()"
proof -
  let ?bad = "[[''title'' \<mapsto> ''x'']] :: result_dict list"
  let ?t1 = "s0\<lparr>stdout := [Print ''Running search for: cats'']\<rparr>"
  let ?t3 = "\<lparr>world = 1,
              stdout = [Print ''Running search for: cats'', Print_list ''Found URLs: '' []],
              provider_calls = [(''cats'', 3)], fetched = [], spawned = []\<rparr> :: nat state"
  have client: "\<And>a. DDGS (stub_env a) (world s0) = (Inr (), 0)"
    by (simp add: stub_env_def s0_def)
  have answer: "\<And>a. fst (ddgs_text (stub_env a) () ''cats'' 3 0) = a"
    by (simp add: stub_env_def)
  have down:
    "fst (duckduckgo_search (stub_env (Inl unreachable)) ''cats'' 3 s0) = Inl unreachable
     \<and> fst (scrape_main (stub_env (Inl unreachable)) s0) = Inl unreachable
     \<and> fst (search_and_notify (stub_notify (Inl unreachable)) ''cats'' s0) = Inl unreachable
     \<and> spawned (snd (search_and_notify (stub_notify (Inl unreachable)) ''cats'' s0)) = []"
    using search_failure_reaches_the_caller
      [where env = "stub_env (Inl unreachable)" and s = s0 and d = "()" and ?w1.0 = 0
         and query = "''cats''" and n = 3 and e = unreachable and ?w0.0 = 0
         and nenv = "stub_notify (Inl unreachable)" and t = s0 and ?t1.0 = ?t1]
    by (simp add: stub_simps)
  have bad:
    "fst (duckduckgo_search (stub_env (Inr ?bad)) ''cats'' 3 s0) = Inl (KeyError ''href'')
     \<and> fst (search_and_notify (stub_notify (Inr ?bad)) ''cats'' s0) = Inl (KeyError ''url'')"
    using search_failure_reaches_the_caller
      [where env = "stub_env (Inr ?bad)" and s = s0 and d = "()" and ?w1.0 = 0
         and query = "''cats''" and n = 3 and results = ?bad and r = "[''title'' \<mapsto> ''x'']"
         and nenv = "stub_notify (Inr ?bad)" and t = s0 and ?t1.0 = ?t1]
    by (simp add: stub_simps)
  have zero:
    "fst (scrape_main (stub_env (Inr [])) s0) = Inr []
     \<and> fst (search_and_notify (stub_notify (Inr [])) ''cats'' s0) = Inr ()"
    using search_failure_reaches_the_caller
      [where env = "stub_env (Inr [])" and s = s0 and d = "()" and ?w1.0 = 0
         and query = "''cats''" and n = 3 and ?w0.0 = 0
         and nenv = "stub_notify (Inr [])" and t = s0 and ?t1.0 = ?t1 and ?w2.0 = 1
         and ?t3.0 = ?t3]
    by (simp add: stub_simps)
  from down bad zero client [of "Inl unreachable"] answer [of "Inl unreachable"]
  show ?thesis
    by simp
qed

end
